theory Spec2Isabelle
  imports Complex_Main
begin

section \<open>JavaScript numbers\<close>

text \<open>
  The costing engine (\<^verbatim>\<open>calc.ts\<close>) computes on JavaScript numbers. A number is
  modelled as a finite value, one of the two infinities, or NaN. Finite values are carried
  as exact reals: the rounding error and the overflow of IEEE doubles are outside the
  model, and zero has no sign (a zero divisor is read as \<^verbatim>\<open>+0\<close>). What the model
  keeps is what the engine's control flow and results can see: an operation never raises,
  a division by zero gives an infinity or NaN, and infinities and NaN propagate through
  arithmetic the way IEEE 754 prescribes.
\<close>

datatype number = Fin real | PInf | NInf | NaN

instantiation number :: "{plus, minus, times, divide}"
begin

fun plus_number :: "number \<Rightarrow> number \<Rightarrow> number" where
  "plus_number NaN y = NaN"
| "plus_number x NaN = NaN"
| "plus_number (Fin a) (Fin b) = Fin (a + b)"
| "plus_number PInf NInf = NaN"
| "plus_number NInf PInf = NaN"
| "plus_number PInf y = PInf"
| "plus_number x PInf = PInf"
| "plus_number NInf y = NInf"
| "plus_number x NInf = NInf"

fun minus_number :: "number \<Rightarrow> number \<Rightarrow> number" where
  "minus_number NaN y = NaN"
| "minus_number x NaN = NaN"
| "minus_number (Fin a) (Fin b) = Fin (a - b)"
| "minus_number PInf PInf = NaN"
| "minus_number NInf NInf = NaN"
| "minus_number PInf y = PInf"
| "minus_number x PInf = NInf"
| "minus_number NInf y = NInf"
| "minus_number x NInf = PInf"

fun times_number :: "number \<Rightarrow> number \<Rightarrow> number" where
  "times_number NaN y = NaN"
| "times_number x NaN = NaN"
| "times_number (Fin a) (Fin b) = Fin (a * b)"
| "times_number PInf (Fin b) = (if b = 0 then NaN else if 0 < b then PInf else NInf)"
| "times_number NInf (Fin b) = (if b = 0 then NaN else if 0 < b then NInf else PInf)"
| "times_number (Fin a) PInf = (if a = 0 then NaN else if 0 < a then PInf else NInf)"
| "times_number (Fin a) NInf = (if a = 0 then NaN else if 0 < a then NInf else PInf)"
| "times_number PInf PInf = PInf"
| "times_number NInf NInf = PInf"
| "times_number PInf NInf = NInf"
| "times_number NInf PInf = NInf"

fun divide_number :: "number \<Rightarrow> number \<Rightarrow> number" where
  "divide_number NaN y = NaN"
| "divide_number x NaN = NaN"
| "divide_number (Fin a) (Fin b) =
     (if b \<noteq> 0 then Fin (a / b)
      else if a = 0 then NaN else if 0 < a then PInf else NInf)"
| "divide_number (Fin a) y = Fin 0"
| "divide_number PInf (Fin b) = (if 0 \<le> b then PInf else NInf)"
| "divide_number NInf (Fin b) = (if 0 \<le> b then NInf else PInf)"
| "divide_number x y = NaN"

instance ..

end

text \<open>The division above is written \<open>a / b\<close> from here on.\<close>

instantiation number :: inverse
begin

definition inverse_number :: "number \<Rightarrow> number" where
  "inverse_number x = Fin 1 div x"

instance ..

end

text \<open>The comparison \<^verbatim>\<open>a > b\<close>: false as soon as one side is NaN.\<close>

fun js_gt :: "number \<Rightarrow> number \<Rightarrow> bool" where
  "js_gt NaN y = False"
| "js_gt x NaN = False"
| "js_gt (Fin a) (Fin b) = (b < a)"
| "js_gt PInf PInf = False"
| "js_gt PInf y = True"
| "js_gt NInf y = False"
| "js_gt (Fin a) PInf = False"
| "js_gt (Fin a) NInf = True"

fun isFinite :: "number \<Rightarrow> bool" where
  "isFinite (Fin a) = True"
| "isFinite x = False"

text \<open>\<^verbatim>\<open>a || b\<close> on numbers: \<^verbatim>\<open>0\<close> and NaN are the falsy numbers.\<close>

definition js_or :: "number \<Rightarrow> number \<Rightarrow> number" where
  "js_or a b = (if a = Fin 0 \<or> a = NaN then b else a)"

text \<open>\<^verbatim>\<open>Math.round\<close>: the nearest integer, a tie going up; infinities and NaN pass.\<close>

fun Math_round :: "number \<Rightarrow> number" where
  "Math_round (Fin a) = Fin (of_int \<lfloor>a + 1 / 2\<rfloor>)"
| "Math_round x = x"

text \<open>The finite value of a number (only read where the number is known to be finite).\<close>

fun val :: "number \<Rightarrow> real" where
  "val (Fin a) = a"
| "val x = 0"

section \<open>Data model (\<^verbatim>\<open>types.ts\<close>)\<close>

record ScrapReturn =
  enabled :: bool
  ratePerKg :: number

record PressStage =
  ratePerKg :: number
  actualWastagePct :: number
  jobWastagePct :: number
  tutPct :: number
  scrapReturn :: ScrapReturn

record InductionStage =
  enabled :: bool
  ratePerKg :: number

record PolishStage =
  ratePerKg :: number
  wastagePct :: number
  tutPct :: number
  scrapReturn :: ScrapReturn

record PackingStage =
  packingRatePerKg :: number
  tutPct :: number
  scrapReturn :: ScrapReturn

datatype BagName = heavy | light | custom

record Polybag =
  sizeIn :: number
  gauge :: number
  ratePerKg :: number

record Pipe =
  widthIn :: number
  lengthIn :: number
  gauge :: number
  pcsPerPipe :: number
  ratePerKg :: number

record BagProfile =
  name :: BagName
  polybag :: Polybag
  pipe :: Pipe

record KundaSpec =
  enabled :: bool
  weightG :: number
  ratePerKg :: number

datatype PartLabel = LabelBox | LabelCover

text \<open>
  The two optional fields of a part are options: \<open>None\<close> is the absent field
  (\<^verbatim>\<open>undefined\<close>, whose \<^verbatim>\<open>typeof\<close> is not \<^verbatim>\<open>'number'\<close>). The field
  \<^verbatim>\<open>id\<close> of an item is written \<open>id_item\<close>.
\<close>

record PartSpec =
  label :: PartLabel
  circleSizeIn :: number
  thicknessMm :: number
  circleRatePerKg :: "number option"
  press :: PressStage
  induction :: "InductionStage option"

record Item =
  id_item :: string
  name :: string
  box :: PartSpec
  cover :: PartSpec
  kunda :: KundaSpec
  bagProfile :: BagProfile
  polish :: PolishStage
  packing :: PackingStage

record AppSettings =
  circleBaseRate :: number
  circleAddPerKg :: number
  circleExtraAddPerKg :: number
  bagStandardKg :: number

record PerPc =
  boxG :: number
  coverG :: number
  kundaG :: number
  polybagG :: number
  pipeG :: number
  totalPackedG :: number

record Debug =
  bagKg :: number
  pcs :: number
  circleKgInTotal :: number
  circleCost :: number
  pressCost :: number
  inductionCost :: number
  polishCost :: number
  packingCost :: number
  kundaCost :: number
  plasticCost :: number
  scrapCredit :: number
  finalCost :: number

record CalcResult =
  itemId :: string
  itemName :: string
  perPc :: PerPc
  pcsPerBag :: number
  perKgRate :: number
  perPcRate :: number
  debug :: Debug

record StageFlow =
  circleKgIn :: number
  kalaKgOut :: number
  polishKgOut :: number
  packedKgOut :: number
  scrapKg :: number
  scrapCredit :: number
  costPress :: number
  costPolish :: number
  costInduction :: number

record Components =
  circleCost :: number
  pressCharge :: number
  inductionCharge :: number
  polishCharge :: number
  scrapCreditPress :: number
  scrapCreditPolish :: number
  scrapCreditPacking :: number

record PartCostResult =
  flow :: StageFlow
  partCostExcludingFinalPackingCharge :: number
  partRatePerKgPacked :: number
  components :: Components

section \<open>Weight formulas\<close>

definition effectiveThicknessMm :: "number \<Rightarrow> number" where
  "effectiveThicknessMm inputMm = inputMm + Fin 0.003"

definition circleWeightG :: "number \<Rightarrow> number \<Rightarrow> number" where
  "circleWeightG circleIn thicknessMm' =
     (let base = (Fin 263 / Fin 254) * circleIn * circleIn;
          scale = effectiveThicknessMm thicknessMm' / Fin 0.263
      in base * scale)"

definition polybagWeightG :: "number \<Rightarrow> number \<Rightarrow> number" where
  "polybagWeightG sizeIn' gauge' = (sizeIn' * sizeIn' * gauge') / Fin 3300"

definition pipeWeightG :: "number \<Rightarrow> number \<Rightarrow> number \<Rightarrow> number" where
  "pipeWeightG widthIn' lengthIn' gauge' = (widthIn' * lengthIn' * gauge') / Fin 3300"

definition r2 :: "number \<Rightarrow> number" where
  "r2 n = Math_round (n * Fin 100) / Fin 100"

definition r3 :: "number \<Rightarrow> number" where
  "r3 n = Math_round (n * Fin 1000) / Fin 1000"

definition pct :: "number \<Rightarrow> number" where
  "pct x = x / Fin 100"

section \<open>Forward costing of one part\<close>

subsection \<open>Quantity flow, from the required packed mass back to the circle\<close>

text \<open>
  Each \<^verbatim>\<open>const\<close> of the quantity flow of \<^verbatim>\<open>computePartForwardCost\<close> is a
  definition of the same name, a function of the arguments it is computed from; the costs
  are computed in \<open>computePartForwardCost\<close> itself.
\<close>

definition packingInputKg :: "number \<Rightarrow> PackingStage \<Rightarrow> number" where
  "packingInputKg requiredPackedKg packing' =
     (let packTutP = pct (PackingStage.tutPct packing')
      in requiredPackedKg / (Fin 1 - packTutP))"

definition packingTutKg :: "number \<Rightarrow> PackingStage \<Rightarrow> number" where
  "packingTutKg requiredPackedKg packing' =
     packingInputKg requiredPackedKg packing' - requiredPackedKg"

definition polishInputKalaKg :: "number \<Rightarrow> PolishStage \<Rightarrow> PackingStage \<Rightarrow> number" where
  "polishInputKalaKg requiredPackedKg polish' packing' =
     (let polTutP = pct (PolishStage.tutPct polish');
          polWastP = pct (PolishStage.wastagePct polish')
      in packingInputKg requiredPackedKg packing' / ((Fin 1 - polTutP) * (Fin 1 - polWastP)))"

definition polishTutKg :: "number \<Rightarrow> PolishStage \<Rightarrow> PackingStage \<Rightarrow> number" where
  "polishTutKg requiredPackedKg polish' packing' =
     polishInputKalaKg requiredPackedKg polish' packing' * pct (PolishStage.tutPct polish')"

definition polishDeliveredKg :: "number \<Rightarrow> PolishStage \<Rightarrow> PackingStage \<Rightarrow> number" where
  "polishDeliveredKg requiredPackedKg polish' packing' =
     (let polTutP = pct (PolishStage.tutPct polish');
          polWastP = pct (PolishStage.wastagePct polish')
      in polishInputKalaKg requiredPackedKg polish' packing' * (Fin 1 - polTutP) * (Fin 1 - polWastP))"

definition pressInputCircleKg ::
  "number \<Rightarrow> PartSpec \<Rightarrow> PolishStage \<Rightarrow> PackingStage \<Rightarrow> number" where
  "pressInputCircleKg requiredPackedKg part polish' packing' =
     (let pressTutP = pct (PressStage.tutPct (press part));
          jobWastP = pct (jobWastagePct (press part))
      in polishInputKalaKg requiredPackedKg polish' packing' /
           ((Fin 1 - pressTutP) * (Fin 1 - jobWastP)))"

definition pressTutKg ::
  "number \<Rightarrow> PartSpec \<Rightarrow> PolishStage \<Rightarrow> PackingStage \<Rightarrow> number" where
  "pressTutKg requiredPackedKg part polish' packing' =
     pressInputCircleKg requiredPackedKg part polish' packing' * pct (PressStage.tutPct (press part))"

definition pressDeliveredKalaKg ::
  "number \<Rightarrow> PartSpec \<Rightarrow> PolishStage \<Rightarrow> PackingStage \<Rightarrow> number" where
  "pressDeliveredKalaKg requiredPackedKg part polish' packing' =
     (let pressTutP = pct (PressStage.tutPct (press part));
          jobWastP = pct (jobWastagePct (press part))
      in pressInputCircleKg requiredPackedKg part polish' packing' *
           (Fin 1 - pressTutP) * (Fin 1 - jobWastP))"

subsection \<open>Costs\<close>

text \<open>
  \<^verbatim>\<open>!!part.induction?.enabled\<close> and \<^verbatim>\<open>part.induction?.ratePerKg ?? 0\<close>: an absent
  induction stage reads as disabled, with rate 0.
\<close>

definition inductionEnabled :: "PartSpec \<Rightarrow> bool" where
  "inductionEnabled part =
     (case induction part of None \<Rightarrow> False | Some i \<Rightarrow> InductionStage.enabled i)"

definition inductionRate :: "PartSpec \<Rightarrow> number" where
  "inductionRate part =
     (case induction part of None \<Rightarrow> Fin 0 | Some i \<Rightarrow> InductionStage.ratePerKg i)"

definition computePartForwardCost ::
  "number \<Rightarrow> PartSpec \<Rightarrow> PolishStage \<Rightarrow> PackingStage \<Rightarrow> number \<Rightarrow> PartCostResult" where
  "computePartForwardCost requiredPackedKg part polish' packing' circleRatePerKg' =
     (let press' = press part;
          circleCost' = pressInputCircleKg requiredPackedKg part polish' packing' * circleRatePerKg';
          pressCharge' =
            pressDeliveredKalaKg requiredPackedKg part polish' packing' * PressStage.ratePerKg press';
          inductionCharge' =
            (if inductionEnabled part \<and> js_gt (inductionRate part) (Fin 0)
             then pressDeliveredKalaKg requiredPackedKg part polish' packing' * inductionRate part
             else Fin 0);
          polishCharge' =
            polishDeliveredKg requiredPackedKg polish' packing' * PolishStage.ratePerKg polish';
          scrapCreditPress' =
            (if ScrapReturn.enabled (PressStage.scrapReturn press')
             then pressTutKg requiredPackedKg part polish' packing' *
                    ScrapReturn.ratePerKg (PressStage.scrapReturn press')
             else Fin 0);
          scrapCreditPolish' =
            (if ScrapReturn.enabled (PolishStage.scrapReturn polish')
             then polishTutKg requiredPackedKg polish' packing' *
                    ScrapReturn.ratePerKg (PolishStage.scrapReturn polish')
             else Fin 0);
          scrapCreditPacking' =
            (if ScrapReturn.enabled (PackingStage.scrapReturn packing')
             then packingTutKg requiredPackedKg packing' *
                    ScrapReturn.ratePerKg (PackingStage.scrapReturn packing')
             else Fin 0);
          scrapCreditTotal = scrapCreditPress' + scrapCreditPolish' + scrapCreditPacking';
          scrapKgTotal =
            pressTutKg requiredPackedKg part polish' packing' +
            polishTutKg requiredPackedKg polish' packing' +
            packingTutKg requiredPackedKg packing';
          partCost =
            circleCost' + pressCharge' + inductionCharge' + polishCharge' - scrapCreditTotal;
          partRatePerKgPacked' = partCost / requiredPackedKg;
          flow' = \<lparr> StageFlow.circleKgIn = pressInputCircleKg requiredPackedKg part polish' packing',
                    StageFlow.kalaKgOut = pressDeliveredKalaKg requiredPackedKg part polish' packing',
                    StageFlow.polishKgOut = polishDeliveredKg requiredPackedKg polish' packing',
                    StageFlow.packedKgOut = requiredPackedKg,
                    StageFlow.scrapKg = scrapKgTotal,
                    StageFlow.scrapCredit = scrapCreditTotal,
                    StageFlow.costPress = circleCost' + pressCharge',
                    StageFlow.costPolish = polishCharge',
                    StageFlow.costInduction = inductionCharge' \<rparr>
      in \<lparr> PartCostResult.flow = flow',
           PartCostResult.partCostExcludingFinalPackingCharge = partCost,
           PartCostResult.partRatePerKgPacked = partRatePerKgPacked',
           PartCostResult.components =
             \<lparr> Components.circleCost = circleCost',
               Components.pressCharge = pressCharge',
               Components.inductionCharge = inductionCharge',
               Components.polishCharge = polishCharge',
               Components.scrapCreditPress = scrapCreditPress',
               Components.scrapCreditPolish = scrapCreditPolish',
               Components.scrapCreditPacking = scrapCreditPacking' \<rparr> \<rparr>)"

section \<open>Circle rate\<close>

definition fallbackCircleRate :: "AppSettings \<Rightarrow> number" where
  "fallbackCircleRate settings =
     circleBaseRate settings + circleAddPerKg settings +
     (js_or (circleExtraAddPerKg settings) (Fin 0))"

definition resolvePartCircleRatePerKg :: "PartSpec \<Rightarrow> AppSettings \<Rightarrow> number" where
  "resolvePartCircleRatePerKg part settings =
     (case circleRatePerKg part of
        Some explicit \<Rightarrow>
          if isFinite explicit \<and> js_gt explicit (Fin 0) then explicit
          else fallbackCircleRate settings
      | None \<Rightarrow> fallbackCircleRate settings)"

section \<open>The orchestrator \<^verbatim>\<open>calculate\<close>\<close>

text \<open>
  Each \<^verbatim>\<open>const\<close> of \<^verbatim>\<open>calculate\<close> is a definition of the same name, a function of
  the item and the settings it is computed from; the fields of the records are written
  with their record's name.
\<close>

subsection \<open>Weight per piece (grams)\<close>

definition boxCircleG :: "Item \<Rightarrow> number" where
  "boxCircleG item = circleWeightG (circleSizeIn (box item)) (thicknessMm (box item))"

definition coverCircleG :: "Item \<Rightarrow> number" where
  "coverCircleG item = circleWeightG (circleSizeIn (cover item)) (thicknessMm (cover item))"

definition boxAfterPressG :: "Item \<Rightarrow> number" where
  "boxAfterPressG item = boxCircleG item * (Fin 1 - pct (actualWastagePct (press (box item))))"

definition coverAfterPressG :: "Item \<Rightarrow> number" where
  "coverAfterPressG item =
     coverCircleG item * (Fin 1 - pct (actualWastagePct (press (cover item))))"

definition boxAfterPolishG :: "Item \<Rightarrow> number" where
  "boxAfterPolishG item = boxAfterPressG item * (Fin 1 - pct (PolishStage.wastagePct (polish item)))"

definition coverAfterPolishG :: "Item \<Rightarrow> number" where
  "coverAfterPolishG item =
     coverAfterPressG item * (Fin 1 - pct (PolishStage.wastagePct (polish item)))"

definition kundaG :: "Item \<Rightarrow> number" where
  "kundaG item = (if KundaSpec.enabled (kunda item) then weightG (kunda item) else Fin 0)"

definition polybagG :: "Item \<Rightarrow> number" where
  "polybagG item =
     polybagWeightG (sizeIn (polybag (bagProfile item))) (Polybag.gauge (polybag (bagProfile item)))"

definition pipePerPcG :: "Item \<Rightarrow> number" where
  "pipePerPcG item =
     pipeWeightG (widthIn (pipe (bagProfile item))) (lengthIn (pipe (bagProfile item)))
       (Pipe.gauge (pipe (bagProfile item))) /
     pcsPerPipe (pipe (bagProfile item))"

definition totalPackedG :: "Item \<Rightarrow> number" where
  "totalPackedG item =
     boxAfterPolishG item + coverAfterPolishG item + kundaG item + polybagG item + pipePerPcG item"

subsection \<open>Batch size and packed mass of each part\<close>

definition pcsPerBag :: "Item \<Rightarrow> AppSettings \<Rightarrow> number" where
  "pcsPerBag item settings = (bagStandardKg settings * Fin 1000) / totalPackedG item"

definition pcs :: "Item \<Rightarrow> AppSettings \<Rightarrow> number" where
  "pcs item settings = pcsPerBag item settings"

definition totalBoxKgPacked :: "Item \<Rightarrow> AppSettings \<Rightarrow> number" where
  "totalBoxKgPacked item settings = (pcs item settings * boxAfterPolishG item) / Fin 1000"

definition totalCoverKgPacked :: "Item \<Rightarrow> AppSettings \<Rightarrow> number" where
  "totalCoverKgPacked item settings = (pcs item settings * coverAfterPolishG item) / Fin 1000"

subsection \<open>Cost of the parts and of the purchased inputs\<close>

definition boxCostRes :: "Item \<Rightarrow> AppSettings \<Rightarrow> PartCostResult" where
  "boxCostRes item settings =
     computePartForwardCost (totalBoxKgPacked item settings) (box item) (polish item)
       (packing item) (resolvePartCircleRatePerKg (box item) settings)"

definition coverCostRes :: "Item \<Rightarrow> AppSettings \<Rightarrow> PartCostResult" where
  "coverCostRes item settings =
     computePartForwardCost (totalCoverKgPacked item settings) (cover item) (polish item)
       (packing item) (resolvePartCircleRatePerKg (cover item) settings)"

definition boxCost :: "Item \<Rightarrow> AppSettings \<Rightarrow> number" where
  "boxCost item settings = partCostExcludingFinalPackingCharge (boxCostRes item settings)"

definition coverCost :: "Item \<Rightarrow> AppSettings \<Rightarrow> number" where
  "coverCost item settings = partCostExcludingFinalPackingCharge (coverCostRes item settings)"

definition kundaKg :: "Item \<Rightarrow> AppSettings \<Rightarrow> number" where
  "kundaKg item settings = (pcs item settings * kundaG item) / Fin 1000"

definition kundaCost :: "Item \<Rightarrow> AppSettings \<Rightarrow> number" where
  "kundaCost item settings =
     (if KundaSpec.enabled (kunda item)
      then kundaKg item settings * KundaSpec.ratePerKg (kunda item) else Fin 0)"

definition polybagKg :: "Item \<Rightarrow> AppSettings \<Rightarrow> number" where
  "polybagKg item settings = (pcs item settings * polybagG item) / Fin 1000"

definition pipeKg :: "Item \<Rightarrow> AppSettings \<Rightarrow> number" where
  "pipeKg item settings = (pcs item settings * pipePerPcG item) / Fin 1000"

definition plasticCost :: "Item \<Rightarrow> AppSettings \<Rightarrow> number" where
  "plasticCost item settings =
     polybagKg item settings * Polybag.ratePerKg (polybag (bagProfile item)) +
     pipeKg item settings * Pipe.ratePerKg (pipe (bagProfile item))"

definition packingCost :: "Item \<Rightarrow> AppSettings \<Rightarrow> number" where
  "packingCost item settings = bagStandardKg settings * packingRatePerKg (packing item)"

subsection \<open>Totals\<close>

definition circleCost :: "Item \<Rightarrow> AppSettings \<Rightarrow> number" where
  "circleCost item settings =
     Components.circleCost (components (boxCostRes item settings)) +
     Components.circleCost (components (coverCostRes item settings))"

definition pressCost :: "Item \<Rightarrow> AppSettings \<Rightarrow> number" where
  "pressCost item settings =
     pressCharge (components (boxCostRes item settings)) +
     pressCharge (components (coverCostRes item settings))"

definition inductionCost :: "Item \<Rightarrow> AppSettings \<Rightarrow> number" where
  "inductionCost item settings =
     inductionCharge (components (boxCostRes item settings)) +
     inductionCharge (components (coverCostRes item settings))"

definition polishCost :: "Item \<Rightarrow> AppSettings \<Rightarrow> number" where
  "polishCost item settings =
     polishCharge (components (boxCostRes item settings)) +
     polishCharge (components (coverCostRes item settings))"

definition scrapCredit :: "Item \<Rightarrow> AppSettings \<Rightarrow> number" where
  "scrapCredit item settings =
     StageFlow.scrapCredit (flow (boxCostRes item settings)) +
     StageFlow.scrapCredit (flow (coverCostRes item settings))"

definition finalCost :: "Item \<Rightarrow> AppSettings \<Rightarrow> number" where
  "finalCost item settings =
     boxCost item settings + coverCost item settings + kundaCost item settings +
     plasticCost item settings + packingCost item settings"

definition perKgRate :: "Item \<Rightarrow> AppSettings \<Rightarrow> number" where
  "perKgRate item settings = finalCost item settings / bagStandardKg settings"

definition perPcRate :: "Item \<Rightarrow> AppSettings \<Rightarrow> number" where
  "perPcRate item settings = perKgRate item settings * (totalPackedG item / Fin 1000)"

subsection \<open>The result record\<close>

definition calculate :: "Item \<Rightarrow> AppSettings \<Rightarrow> CalcResult" where
  "calculate item settings =
     \<lparr> CalcResult.itemId = id_item item,
       CalcResult.itemName = Item.name item,
       CalcResult.perPc =
         \<lparr> PerPc.boxG = r2 (boxAfterPolishG item),
           PerPc.coverG = r2 (coverAfterPolishG item),
           PerPc.kundaG = r2 (kundaG item),
           PerPc.polybagG = r2 (polybagG item),
           PerPc.pipeG = r2 (pipePerPcG item),
           PerPc.totalPackedG = r2 (totalPackedG item) \<rparr>,
       CalcResult.pcsPerBag = r2 (pcsPerBag item settings),
       CalcResult.perKgRate = r2 (perKgRate item settings),
       CalcResult.perPcRate = r2 (perPcRate item settings),
       CalcResult.debug =
         \<lparr> Debug.bagKg = bagStandardKg settings,
           Debug.pcs = r3 (pcs item settings),
           Debug.circleKgInTotal =
             r3 (circleKgIn (flow (boxCostRes item settings)) +
                 circleKgIn (flow (coverCostRes item settings))),
           Debug.circleCost = r2 (circleCost item settings),
           Debug.pressCost = r2 (pressCost item settings),
           Debug.inductionCost = r2 (inductionCost item settings),
           Debug.polishCost = r2 (polishCost item settings),
           Debug.packingCost = r2 (packingCost item settings),
           Debug.kundaCost = r2 (kundaCost item settings),
           Debug.plasticCost = r2 (plasticCost item settings),
           Debug.scrapCredit = r2 (scrapCredit item settings),
           Debug.finalCost = r2 (finalCost item settings) \<rparr> \<rparr>"

section \<open>The quantity flow in binary64 arithmetic\<close>










section \<open>Predicates of the specification and concrete inputs\<close>

text \<open>
  A part's induction stage contributes nothing when it is absent, disabled, or has rate 0.
\<close>

definition inductionOff :: "PartSpec \<Rightarrow> bool" where
  "inductionOff part =
     (case induction part of
        None \<Rightarrow> True
      | Some i \<Rightarrow> \<not> InductionStage.enabled i \<or> InductionStage.ratePerKg i = Fin 0)"

text \<open>
  Two inputs agree on geometry and mass: the fields that the weights per piece and the
  batch size are computed from.
\<close>

definition sameGeometry :: "Item \<Rightarrow> AppSettings \<Rightarrow> Item \<Rightarrow> AppSettings \<Rightarrow> bool" where
  "sameGeometry i1 s1 i2 s2 =
     (circleSizeIn (box i1) = circleSizeIn (box i2) \<and>
      thicknessMm (box i1) = thicknessMm (box i2) \<and>
      actualWastagePct (press (box i1)) = actualWastagePct (press (box i2)) \<and>
      circleSizeIn (cover i1) = circleSizeIn (cover i2) \<and>
      thicknessMm (cover i1) = thicknessMm (cover i2) \<and>
      actualWastagePct (press (cover i1)) = actualWastagePct (press (cover i2)) \<and>
      PolishStage.wastagePct (polish i1) = PolishStage.wastagePct (polish i2) \<and>
      KundaSpec.enabled (kunda i1) = KundaSpec.enabled (kunda i2) \<and>
      weightG (kunda i1) = weightG (kunda i2) \<and>
      sizeIn (polybag (bagProfile i1)) = sizeIn (polybag (bagProfile i2)) \<and>
      Polybag.gauge (polybag (bagProfile i1)) = Polybag.gauge (polybag (bagProfile i2)) \<and>
      widthIn (pipe (bagProfile i1)) = widthIn (pipe (bagProfile i2)) \<and>
      lengthIn (pipe (bagProfile i1)) = lengthIn (pipe (bagProfile i2)) \<and>
      Pipe.gauge (pipe (bagProfile i1)) = Pipe.gauge (pipe (bagProfile i2)) \<and>
      pcsPerPipe (pipe (bagProfile i1)) = pcsPerPipe (pipe (bagProfile i2)) \<and>
      bagStandardKg s1 = bagStandardKg s2)"

text \<open>
  The stage inversion as the specification writes it, on real numbers: the mass each stage
  must receive for a final packed mass, given the percentages of the stages.
\<close>

definition specPackingInput :: "real \<Rightarrow> real \<Rightarrow> real" where
  "specPackingInput finalOutput tutPacking = finalOutput / (1 - tutPacking / 100)"

definition specPolishInput :: "real \<Rightarrow> real \<Rightarrow> real \<Rightarrow> real \<Rightarrow> real" where
  "specPolishInput finalOutput tutPacking tutPolish wastagePolish =
     specPackingInput finalOutput tutPacking /
       ((1 - tutPolish / 100) * (1 - wastagePolish / 100))"

definition specPressInput :: "real \<Rightarrow> real \<Rightarrow> real \<Rightarrow> real \<Rightarrow> real \<Rightarrow> real \<Rightarrow> real" where
  "specPressInput finalOutput tutPacking tutPolish wastagePolish tutPress jobWastagePress =
     specPolishInput finalOutput tutPacking tutPolish wastagePolish /
       ((1 - tutPress / 100) * (1 - jobWastagePress / 100))"

text \<open>
  The combined loss fraction of a stage with two independent losses (packing has one, its
  second loss is 0), and the condition that it lies in \<open>[0, 1)\<close>.
\<close>

definition combinedLoss :: "real \<Rightarrow> real \<Rightarrow> real" where
  "combinedLoss a b = 1 - (1 - a / 100) * (1 - b / 100)"

definition lossOk :: "real \<Rightarrow> real \<Rightarrow> bool" where
  "lossOk a b = (0 \<le> combinedLoss a b \<and> combinedLoss a b < 1)"


text \<open>
  Some stage percentage of the item is 100, so that the combined loss fraction of that stage
  is 1.
\<close>

definition lossIsOne :: "Item \<Rightarrow> bool" where
  "lossIsOne item =
     (PackingStage.tutPct (packing item) = Fin 100 \<or>
      PolishStage.tutPct (polish item) = Fin 100 \<or>
      PolishStage.wastagePct (polish item) = Fin 100 \<or>
      PressStage.tutPct (press (box item)) = Fin 100 \<or>
      jobWastagePct (press (box item)) = Fin 100 \<or>
      PressStage.tutPct (press (cover item)) = Fin 100 \<or>
      jobWastagePct (press (cover item)) = Fin 100)"

text \<open>A divisor that is zero or NaN.\<close>

definition zeroish :: "number \<Rightarrow> bool" where
  "zeroish d = (d = Fin 0 \<or> d = NaN)"

text \<open>
  Valid inputs, after the invariants of the data model: every number is finite, every
  percentage lies in \<open>[0, 100)\<close>, dimensions and the standard bag mass are positive, rates
  and the kunda weight are not negative. Nothing is asked of a part's own circle rate: the
  resolver itself handles every value of it.
\<close>

definition isPct :: "number \<Rightarrow> bool" where
  "isPct x = (isFinite x \<and> 0 \<le> val x \<and> val x < 100)"

definition isNonneg :: "number \<Rightarrow> bool" where
  "isNonneg x = (isFinite x \<and> 0 \<le> val x)"

definition isPos :: "number \<Rightarrow> bool" where
  "isPos x = (isFinite x \<and> 0 < val x)"

definition validPress :: "PressStage \<Rightarrow> bool" where
  "validPress p =
     (isNonneg (PressStage.ratePerKg p) \<and> isPct (actualWastagePct p) \<and>
      isPct (jobWastagePct p) \<and> isPct (PressStage.tutPct p) \<and>
      isNonneg (ScrapReturn.ratePerKg (PressStage.scrapReturn p)))"

definition validPart :: "PartSpec \<Rightarrow> bool" where
  "validPart part =
     (isPos (circleSizeIn part) \<and> isPos (thicknessMm part) \<and> validPress (press part) \<and>
      (case induction part of None \<Rightarrow> True | Some i \<Rightarrow> isNonneg (InductionStage.ratePerKg i)))"

definition validPolish :: "PolishStage \<Rightarrow> bool" where
  "validPolish p =
     (isNonneg (PolishStage.ratePerKg p) \<and> isPct (PolishStage.wastagePct p) \<and>
      isPct (PolishStage.tutPct p) \<and>
      isNonneg (ScrapReturn.ratePerKg (PolishStage.scrapReturn p)))"

definition validPacking :: "PackingStage \<Rightarrow> bool" where
  "validPacking p =
     (isNonneg (packingRatePerKg p) \<and> isPct (PackingStage.tutPct p) \<and>
      isNonneg (ScrapReturn.ratePerKg (PackingStage.scrapReturn p)))"

definition validKunda :: "KundaSpec \<Rightarrow> bool" where
  "validKunda k = (isNonneg (weightG k) \<and> isNonneg (KundaSpec.ratePerKg k))"

definition validBagProfile :: "BagProfile \<Rightarrow> bool" where
  "validBagProfile b =
     (isPos (sizeIn (polybag b)) \<and> isPos (Polybag.gauge (polybag b)) \<and>
      isNonneg (Polybag.ratePerKg (polybag b)) \<and>
      isPos (widthIn (pipe b)) \<and> isPos (lengthIn (pipe b)) \<and> isPos (Pipe.gauge (pipe b)) \<and>
      isPos (pcsPerPipe (pipe b)) \<and> isNonneg (Pipe.ratePerKg (pipe b)))"

definition validSettings :: "AppSettings \<Rightarrow> bool" where
  "validSettings s =
     (isNonneg (circleBaseRate s) \<and> isNonneg (circleAddPerKg s) \<and>
      isNonneg (circleExtraAddPerKg s) \<and> isPos (bagStandardKg s))"

definition validInput :: "Item \<Rightarrow> AppSettings \<Rightarrow> bool" where
  "validInput item s =
     (validPart (box item) \<and> validPart (cover item) \<and> validKunda (kunda item) \<and>
      validBagProfile (bagProfile item) \<and> validPolish (polish item) \<and>
      validPacking (packing item) \<and> validSettings s)"

text \<open>
  The sum of the reported cost components minus the reported scrap credit, on the emitted
  (rounded) fields of the debug record.
\<close>

definition debugSum :: "Debug \<Rightarrow> real" where
  "debugSum d =
     val (Debug.circleCost d) + val (Debug.pressCost d) + val (Debug.inductionCost d) +
     val (Debug.polishCost d) + val (Debug.packingCost d) + val (Debug.kundaCost d) +
     val (Debug.plasticCost d) - val (Debug.scrapCredit d)"


text \<open>
  An emitted amount is finite and at most \<open>10 ^ 9\<close> in absolute value, and so are all nine
  amounts of a debug record. At this magnitude the spacing of doubles is below \<open>10 ^ - 6\<close>.
\<close>

definition withinBillion :: "number \<Rightarrow> bool" where
  "withinBillion x = (isFinite x \<and> \<bar>val x\<bar> \<le> 10 ^ 9)"

definition moderate :: "Debug \<Rightarrow> bool" where
  "moderate d =
     (withinBillion (Debug.circleCost d) \<and> withinBillion (Debug.pressCost d) \<and>
      withinBillion (Debug.inductionCost d) \<and> withinBillion (Debug.polishCost d) \<and>
      withinBillion (Debug.packingCost d) \<and> withinBillion (Debug.kundaCost d) \<and>
      withinBillion (Debug.plasticCost d) \<and> withinBillion (Debug.scrapCredit d) \<and>
      withinBillion (Debug.finalCost d))"


text \<open>
  The seed data of the repository (\<^verbatim>\<open>seed.ts\<close>, \<^verbatim>\<open>db.ts\<close>): the default settings and
  the first seed item, \<^verbatim>\<open>bellyItem(7, 'heavy')\<close>. Its id is generated at run time and is
  fixed here; the inch mark of its display name is left out.
\<close>

definition defaultSettings :: AppSettings where
  "defaultSettings =
     \<lparr> circleBaseRate = Fin 170, circleAddPerKg = Fin 5, circleExtraAddPerKg = Fin 0,
       bagStandardKg = Fin 80 \<rparr>"

definition DEFAULT_INDUCTION :: InductionStage where
  "DEFAULT_INDUCTION = \<lparr> InductionStage.enabled = False, InductionStage.ratePerKg = Fin 10 \<rparr>"

definition belly7 :: Item where
  "belly7 =
     \<lparr> id_item = ''it_seed'',
       Item.name = ''Belly 7 (heavy)'',
       box = \<lparr> label = LabelBox, circleSizeIn = Fin 7, thicknessMm = Fin 0.26,
               circleRatePerKg = None,
               press = \<lparr> PressStage.ratePerKg = Fin 20, actualWastagePct = Fin 4,
                         jobWastagePct = Fin 8, PressStage.tutPct = Fin 3,
                         PressStage.scrapReturn =
                           \<lparr> ScrapReturn.enabled = True, ScrapReturn.ratePerKg = Fin 50 \<rparr> \<rparr>,
               induction = Some DEFAULT_INDUCTION \<rparr>,
       cover = \<lparr> label = LabelCover, circleSizeIn = Fin 5.5, thicknessMm = Fin 0.26,
                 circleRatePerKg = None,
                 press = \<lparr> PressStage.ratePerKg = Fin 14, actualWastagePct = Fin 0,
                           jobWastagePct = Fin 6, PressStage.tutPct = Fin 2,
                           PressStage.scrapReturn =
                             \<lparr> ScrapReturn.enabled = True, ScrapReturn.ratePerKg = Fin 50 \<rparr> \<rparr>,
                 induction = Some DEFAULT_INDUCTION \<rparr>,
       kunda = \<lparr> KundaSpec.enabled = False, weightG = Fin 0, KundaSpec.ratePerKg = Fin 205 \<rparr>,
       bagProfile =
         \<lparr> BagProfile.name = heavy,
           polybag = \<lparr> sizeIn = Fin 8, Polybag.gauge = Fin 225, Polybag.ratePerKg = Fin 135 \<rparr>,
           pipe = \<lparr> widthIn = Fin 7, lengthIn = Fin 25, Pipe.gauge = Fin 225,
                    pcsPerPipe = Fin 8, Pipe.ratePerKg = Fin 135 \<rparr> \<rparr>,
       polish = \<lparr> PolishStage.ratePerKg = Fin 72, PolishStage.wastagePct = Fin 2,
                  PolishStage.tutPct = Fin 2,
                  PolishStage.scrapReturn =
                    \<lparr> ScrapReturn.enabled = True, ScrapReturn.ratePerKg = Fin 50 \<rparr> \<rparr>,
       packing = \<lparr> packingRatePerKg = Fin 10, PackingStage.tutPct = Fin 2,
                   PackingStage.scrapReturn =
                     \<lparr> ScrapReturn.enabled = True, ScrapReturn.ratePerKg = Fin 50 \<rparr> \<rparr> \<rparr>"

text \<open>The same item with every packed piece lost at packing (packing tut of 100 percent).\<close>

definition belly7_packTut100 :: Item where
  "belly7_packTut100 = belly7\<lparr>packing := (packing belly7)\<lparr>PackingStage.tutPct := Fin 100\<rparr>\<rparr>"

text \<open>The same item with a 5 g kunda, as the kunda items of the seed data have.\<close>

definition belly7_kunda :: Item where
  "belly7_kunda =
     belly7\<lparr>kunda := \<lparr> KundaSpec.enabled = True, weightG = Fin 5, KundaSpec.ratePerKg = Fin 205 \<rparr>\<rparr>"

text \<open>The box of the item with its induction stage enabled, at the seed rate.\<close>

definition belly7_box_induction :: PartSpec where
  "belly7_box_induction =
     (box belly7)\<lparr>induction :=
        Some \<lparr> InductionStage.enabled = True, InductionStage.ratePerKg = Fin 10 \<rparr>\<rparr>"


section \<open>Basic facts\<close>

lemma fin_val: "isFinite x \<Longrightarrow> x = Fin (val x)"
  by (cases x) simp_all

lemma js_or_id: "x \<noteq> NaN \<Longrightarrow> js_or x (Fin 0) = x"
  by (simp add: js_or_def)

lemma r2_zero: "r2 (Fin 0) = Fin 0"
  by (simp add: r2_def)

lemma circleWeightG_Fin:
  "circleWeightG (Fin d) (Fin t) = Fin ((263 / 254) * d * d * ((t + 0.003) / 0.263))"
  by (simp add: circleWeightG_def effectiveThicknessMm_def)

lemmas weight_defs = boxCircleG_def coverCircleG_def boxAfterPressG_def coverAfterPressG_def
  boxAfterPolishG_def coverAfterPolishG_def kundaG_def polybagG_def pipePerPcG_def totalPackedG_def

lemmas batch_defs = pcsPerBag_def pcs_def totalBoxKgPacked_def totalCoverKgPacked_def

lemmas total_defs = boxCost_def coverCost_def kundaKg_def kundaCost_def polybagKg_def pipeKg_def
  plasticCost_def packingCost_def circleCost_def pressCost_def inductionCost_def polishCost_def
  scrapCredit_def finalCost_def perKgRate_def perPcRate_def

section \<open>Weight of a circle\<close>

text \<open>
  C8, as the code has it. For every finite diameter \<open>d\<close> and thickness \<open>t\<close>,
  \<open>circleWeightG d t = (263/254) * d\<^sup>2 * ((t + 0.003) / 0.263)\<close>: the tolerance is added to
  every thickness. At \<open>d = 7\<close>, \<open>t = 0.26\<close> the scale factor is 1 and the weight is
  \<open>(263/254) * 49\<close>, which is 50.74 g to two decimals.
\<close>

theorem circleWeightG_formula:
  "circleWeightG (Fin d) (Fin t) = Fin ((263 / 254) * d\<^sup>2 * ((t + 0.003) / 0.263))
   \<and> circleWeightG (Fin 7) (Fin 0.26) = Fin ((263 / 254) * 49 * (0.263 / 0.263))
   \<and> r2 (circleWeightG (Fin 7) (Fin 0.26)) = Fin 50.74"
  by (simp add: circleWeightG_Fin r2_def power2_eq_square)

text \<open>
  C8, the literal of the specification: the weight at \<open>d = 7\<close>, \<open>t = 0.26\<close> is not 50.78 g.
  It rounds to another value, and lies more than 0.04 g away.
\<close>

theorem circleWeightG_7_026_not_5078:
  "r2 (circleWeightG (Fin 7) (Fin 0.26)) \<noteq> Fin 50.78
   \<and> \<bar>val (circleWeightG (Fin 7) (Fin 0.26)) - 50.78\<bar> > 0.04"
  by (simp add: circleWeightG_Fin r2_def)

section \<open>Circle rate of a part\<close>

text \<open>
  C7. The resolved circle rate of a part is the part's own \<open>circleRatePerKg\<close> when that
  field is present, finite and greater than 0; in every other case (absent, infinite, NaN,
  zero, negative) it is
  \<open>circleBaseRate + circleAddPerKg + circleExtraAddPerKg\<close> of the settings. The settings'
  \<open>circleExtraAddPerKg\<close> is a number of the data model, so not NaN.
\<close>

theorem resolvePartCircleRatePerKg_spec:
  assumes "circleExtraAddPerKg settings \<noteq> NaN"
  shows "(circleRatePerKg part = Some (Fin r) \<and> 0 < r \<longrightarrow>
            resolvePartCircleRatePerKg part settings = Fin r)
       \<and> (\<not> (\<exists>r. circleRatePerKg part = Some (Fin r) \<and> 0 < r) \<longrightarrow>
            resolvePartCircleRatePerKg part settings =
              circleBaseRate settings + circleAddPerKg settings + circleExtraAddPerKg settings)"
proof (intro conjI impI)
  assume "circleRatePerKg part = Some (Fin r) \<and> 0 < r"
  then show "resolvePartCircleRatePerKg part settings = Fin r"
    by (simp add: resolvePartCircleRatePerKg_def)
next
  assume no: "\<not> (\<exists>r. circleRatePerKg part = Some (Fin r) \<and> 0 < r)"
  have fb: "fallbackCircleRate settings =
      circleBaseRate settings + circleAddPerKg settings + circleExtraAddPerKg settings"
    using assms by (simp add: fallbackCircleRate_def js_or_id)
  show "resolvePartCircleRatePerKg part settings =
      circleBaseRate settings + circleAddPerKg settings + circleExtraAddPerKg settings"
  proof (cases "circleRatePerKg part")
    case None
    then show ?thesis by (simp add: resolvePartCircleRatePerKg_def fb)
  next
    case (Some e)
    with no have "\<not> (isFinite e \<and> js_gt e (Fin 0))"
      by (cases e) auto
    with Some show ?thesis by (auto simp: resolvePartCircleRatePerKg_def fb)
  qed
qed

theorem resolvePartCircleRatePerKg_spec_witness:
  "circleExtraAddPerKg defaultSettings \<noteq> NaN
   \<and> resolvePartCircleRatePerKg ((box belly7)\<lparr>circleRatePerKg := Some (Fin 180)\<rparr>)
        defaultSettings = Fin 180
   \<and> resolvePartCircleRatePerKg (box belly7) defaultSettings = Fin 175"
proof -
  have h: "circleExtraAddPerKg defaultSettings \<noteq> NaN"
    by (simp add: defaultSettings_def)
  have e: "circleRatePerKg ((box belly7)\<lparr>circleRatePerKg := Some (Fin 180)\<rparr>) = Some (Fin 180)
           \<and> (0::real) < 180"
    by simp
  have n: "\<not> (\<exists>r. circleRatePerKg (box belly7) = Some (Fin r) \<and> 0 < r)"
    by (simp add: belly7_def)
  have v: "circleBaseRate defaultSettings + circleAddPerKg defaultSettings +
           circleExtraAddPerKg defaultSettings = Fin 175"
    by (simp add: defaultSettings_def)
  from resolvePartCircleRatePerKg_spec [OF h, of "(box belly7)\<lparr>circleRatePerKg := Some (Fin 180)\<rparr>" 180]
    resolvePartCircleRatePerKg_spec [OF h, of "box belly7" 0] h e n v
  show ?thesis by simp
qed

section \<open>Induction is optional\<close>

lemma inductionOff_gate:
  "inductionOff part \<Longrightarrow> \<not> (inductionEnabled part \<and> js_gt (inductionRate part) (Fin 0))"
  by (auto simp: inductionOff_def inductionEnabled_def inductionRate_def split: option.splits)

lemma flow_induction_update [simp]:
  "pressInputCircleKg req (part\<lparr>induction := v\<rparr>) pol pk = pressInputCircleKg req part pol pk"
  "pressTutKg req (part\<lparr>induction := v\<rparr>) pol pk = pressTutKg req part pol pk"
  "pressDeliveredKalaKg req (part\<lparr>induction := v\<rparr>) pol pk = pressDeliveredKalaKg req part pol pk"
  by (simp_all add: pressInputCircleKg_def pressTutKg_def pressDeliveredKalaKg_def)

lemma resolve_induction_update [simp]:
  "resolvePartCircleRatePerKg (part\<lparr>induction := v\<rparr>) s = resolvePartCircleRatePerKg part s"
  by (simp add: resolvePartCircleRatePerKg_def)

lemma computePart_inductionOff:
  assumes "inductionOff part"
  shows "computePartForwardCost req part pol pk rate =
         computePartForwardCost req (part\<lparr>induction := None\<rparr>) pol pk rate"
    and "inductionCharge (components (computePartForwardCost req part pol pk rate)) = Fin 0"
proof -
  have g: "(inductionEnabled part \<and> js_gt (inductionRate part) (Fin 0)) = False"
    using inductionOff_gate [OF assms] by simp
  have n: "(inductionEnabled (part\<lparr>induction := None\<rparr>) \<and>
            js_gt (inductionRate (part\<lparr>induction := None\<rparr>)) (Fin 0)) = False"
    by (simp add: inductionEnabled_def)
  show "computePartForwardCost req part pol pk rate =
        computePartForwardCost req (part\<lparr>induction := None\<rparr>) pol pk rate"
    unfolding computePartForwardCost_def Let_def g n by simp
  show "inductionCharge (components (computePartForwardCost req part pol pk rate)) = Fin 0"
    unfolding computePartForwardCost_def Let_def g by simp
qed

lemma boxCostRes_off:
  assumes "inductionOff (box item)"
  shows "boxCostRes (item\<lparr>box := (box item)\<lparr>induction := None\<rparr>\<rparr>) s = boxCostRes item s"
    and "coverCostRes (item\<lparr>box := (box item)\<lparr>induction := None\<rparr>\<rparr>) s = coverCostRes item s"
  using computePart_inductionOff(1) [OF assms]
  by (simp_all add: boxCostRes_def coverCostRes_def weight_defs batch_defs)

lemma coverCostRes_off:
  assumes "inductionOff (cover item)"
  shows "coverCostRes (item\<lparr>cover := (cover item)\<lparr>induction := None\<rparr>\<rparr>) s = coverCostRes item s"
    and "boxCostRes (item\<lparr>cover := (cover item)\<lparr>induction := None\<rparr>\<rparr>) s = boxCostRes item s"
  using computePart_inductionOff(1) [OF assms]
  by (simp_all add: boxCostRes_def coverCostRes_def weight_defs batch_defs)

lemma calculate_box_off:
  assumes "inductionOff (box item)"
  shows "calculate (item\<lparr>box := (box item)\<lparr>induction := None\<rparr>\<rparr>) s = calculate item s"
  unfolding calculate_def total_defs boxCostRes_off [OF assms]
  by (simp add: weight_defs batch_defs)

lemma calculate_cover_off:
  assumes "inductionOff (cover item)"
  shows "calculate (item\<lparr>cover := (cover item)\<lparr>induction := None\<rparr>\<rparr>) s = calculate item s"
  unfolding calculate_def total_defs coverCostRes_off [OF assms]
  by (simp add: weight_defs batch_defs)

lemma belly7_off: "inductionOff (box belly7)" "inductionOff (cover belly7)"
  by (simp_all add: inductionOff_def belly7_def DEFAULT_INDUCTION_def)

text \<open>
  C9. When the induction stage of a part is absent, disabled or has rate 0, the induction
  charge of that part is exactly 0 and the whole result of \<open>calculate\<close> is the result for
  the same input with that part's induction stage removed: nothing else changes. When this
  holds of both parts, the reported \<open>inductionCost\<close> is exactly 0. This holds for every
  input, whatever its other fields are.
\<close>

theorem induction_off_no_contribution:
  "(inductionOff (box item) \<longrightarrow>
      inductionCharge (components (boxCostRes item s)) = Fin 0 \<and>
      calculate item s = calculate (item\<lparr>box := (box item)\<lparr>induction := None\<rparr>\<rparr>) s)
 \<and> (inductionOff (cover item) \<longrightarrow>
      inductionCharge (components (coverCostRes item s)) = Fin 0 \<and>
      calculate item s = calculate (item\<lparr>cover := (cover item)\<lparr>induction := None\<rparr>\<rparr>) s)
 \<and> (inductionOff (box item) \<and> inductionOff (cover item) \<longrightarrow>
      Debug.inductionCost (debug (calculate item s)) = Fin 0)"
proof (intro conjI impI)
  assume b: "inductionOff (box item)"
  show "inductionCharge (components (boxCostRes item s)) = Fin 0"
    unfolding boxCostRes_def by (rule computePart_inductionOff(2) [OF b])
  show "calculate item s = calculate (item\<lparr>box := (box item)\<lparr>induction := None\<rparr>\<rparr>) s"
    by (simp add: calculate_box_off [OF b])
next
  assume c: "inductionOff (cover item)"
  show "inductionCharge (components (coverCostRes item s)) = Fin 0"
    unfolding coverCostRes_def by (rule computePart_inductionOff(2) [OF c])
  show "calculate item s = calculate (item\<lparr>cover := (cover item)\<lparr>induction := None\<rparr>\<rparr>) s"
    by (simp add: calculate_cover_off [OF c])
next
  assume bc: "inductionOff (box item) \<and> inductionOff (cover item)"
  have "inductionCharge (components (boxCostRes item s)) = Fin 0"
    unfolding boxCostRes_def using bc by (simp add: computePart_inductionOff(2))
  moreover have "inductionCharge (components (coverCostRes item s)) = Fin 0"
    unfolding coverCostRes_def using bc by (simp add: computePart_inductionOff(2))
  ultimately show "Debug.inductionCost (debug (calculate item s)) = Fin 0"
    by (simp add: calculate_def inductionCost_def r2_zero)
qed

theorem induction_off_no_contribution_witness:
  "inductionOff (box belly7) \<and> inductionOff (cover belly7)
   \<and> inductionCharge (components (boxCostRes belly7 defaultSettings)) = Fin 0
   \<and> calculate belly7 defaultSettings =
       calculate (belly7\<lparr>box := (box belly7)\<lparr>induction := None\<rparr>\<rparr>) defaultSettings
   \<and> inductionCharge (components (coverCostRes belly7 defaultSettings)) = Fin 0
   \<and> calculate belly7 defaultSettings =
       calculate (belly7\<lparr>cover := (cover belly7)\<lparr>induction := None\<rparr>\<rparr>) defaultSettings
   \<and> Debug.inductionCost (debug (calculate belly7 defaultSettings)) = Fin 0"
  using induction_off_no_contribution [of belly7 defaultSettings] belly7_off
  by blast

section \<open>Weights do not depend on prices\<close>

lemma sameGeometry_weights:
  assumes "sameGeometry i1 s1 i2 s2"
  shows "boxAfterPolishG i1 = boxAfterPolishG i2"
    and "coverAfterPolishG i1 = coverAfterPolishG i2"
    and "kundaG i1 = kundaG i2"
    and "polybagG i1 = polybagG i2"
    and "pipePerPcG i1 = pipePerPcG i2"
  using assms by (simp_all add: sameGeometry_def weight_defs)

text \<open>
  C10. Two inputs that agree on the geometry and mass fields (circle sizes, thicknesses,
  press actual wastage of each part, polish wastage, kunda enabled and weight, polybag and
  pipe dimensions, gauges and pieces per pipe, and the standard bag mass), and differ in
  any way in rates, tut and job-wastage percentages, packing rate, scrap return or circle
  rates, get the same weights per piece and the same pieces per bag from \<open>calculate\<close>.
\<close>

theorem weights_independent_of_prices:
  assumes "sameGeometry i1 s1 i2 s2"
  shows "perPc (calculate i1 s1) = perPc (calculate i2 s2)
       \<and> CalcResult.pcsPerBag (calculate i1 s1) = CalcResult.pcsPerBag (calculate i2 s2)"
proof -
  have b: "bagStandardKg s1 = bagStandardKg s2"
    using assms by (simp add: sameGeometry_def)
  have t: "totalPackedG i1 = totalPackedG i2"
    by (simp add: totalPackedG_def sameGeometry_weights [OF assms])
  show ?thesis
    by (simp add: calculate_def pcsPerBag_def b t sameGeometry_weights [OF assms])
qed

theorem weights_independent_of_prices_witness:
  "sameGeometry belly7 defaultSettings belly7_packTut100
     (defaultSettings\<lparr>circleBaseRate := Fin 200\<rparr>)
   \<and> perPc (calculate belly7 defaultSettings) =
       perPc (calculate belly7_packTut100 (defaultSettings\<lparr>circleBaseRate := Fin 200\<rparr>))
   \<and> CalcResult.pcsPerBag (calculate belly7 defaultSettings) =
       CalcResult.pcsPerBag
         (calculate belly7_packTut100 (defaultSettings\<lparr>circleBaseRate := Fin 200\<rparr>))"
proof -
  have h: "sameGeometry belly7 defaultSettings belly7_packTut100
             (defaultSettings\<lparr>circleBaseRate := Fin 200\<rparr>)"
    by (simp add: sameGeometry_def belly7_packTut100_def)
  from weights_independent_of_prices [OF h] h show ?thesis by simp
qed

section \<open>Stage inversion\<close>

lemma lossOk_pos: "lossOk a b \<Longrightarrow> 0 < (1 - a / 100) * (1 - b / 100)"
  by (simp add: lossOk_def combinedLoss_def)

lemma lossOk_nz: "lossOk a b \<Longrightarrow> a \<noteq> 100 \<and> b \<noteq> 100"
  using lossOk_pos [of a b] by auto

lemma pct_range_lossOk: "0 \<le> a \<Longrightarrow> a < 100 \<Longrightarrow> 0 \<le> b \<Longrightarrow> b < 100 \<Longrightarrow> lossOk a b"
proof -
  assume a: "0 \<le> a" "a < 100" and b: "0 \<le> b" "b < 100"
  have x: "0 < 1 - a / 100" "1 - a / 100 \<le> 1" using a by simp_all
  have y: "0 < 1 - b / 100" "1 - b / 100 \<le> 1" using b by simp_all
  have "0 < (1 - a / 100) * (1 - b / 100)" using x y by simp
  moreover have "(1 - a / 100) * (1 - b / 100) \<le> 1 * 1"
    using x y by (intro mult_mono) simp_all
  ultimately show ?thesis by (simp add: lossOk_def combinedLoss_def)
qed

lemma flow_values:
  assumes "PackingStage.tutPct pk = Fin tp"
    and "PolishStage.tutPct pol = Fin ta" and "PolishStage.wastagePct pol = Fin tb"
    and "PressStage.tutPct (press part) = Fin tc" and "jobWastagePct (press part) = Fin td"
    and "tp \<noteq> 100" and "ta \<noteq> 100" and "tb \<noteq> 100" and "tc \<noteq> 100" and "td \<noteq> 100"
  shows "packingInputKg (Fin q) pk = Fin (specPackingInput q tp)"
    and "packingTutKg (Fin q) pk = Fin (specPackingInput q tp - q)"
    and "polishInputKalaKg (Fin q) pol pk = Fin (specPolishInput q tp ta tb)"
    and "polishTutKg (Fin q) pol pk = Fin (specPolishInput q tp ta tb * (ta / 100))"
    and "polishDeliveredKg (Fin q) pol pk =
           Fin (specPolishInput q tp ta tb * (1 - ta / 100) * (1 - tb / 100))"
    and "pressInputCircleKg (Fin q) part pol pk = Fin (specPressInput q tp ta tb tc td)"
    and "pressTutKg (Fin q) part pol pk = Fin (specPressInput q tp ta tb tc td * (tc / 100))"
    and "pressDeliveredKalaKg (Fin q) part pol pk =
           Fin (specPressInput q tp ta tb tc td * (1 - tc / 100) * (1 - td / 100))"
proof -
  show pin: "packingInputKg (Fin q) pk = Fin (specPackingInput q tp)"
    using assms by (simp add: packingInputKg_def pct_def specPackingInput_def)
  show "packingTutKg (Fin q) pk = Fin (specPackingInput q tp - q)"
    using assms by (simp add: packingTutKg_def pin)
  show polin: "polishInputKalaKg (Fin q) pol pk = Fin (specPolishInput q tp ta tb)"
    using assms by (simp add: polishInputKalaKg_def pin pct_def specPolishInput_def)
  show "polishTutKg (Fin q) pol pk = Fin (specPolishInput q tp ta tb * (ta / 100))"
    using assms by (simp add: polishTutKg_def polin pct_def)
  show "polishDeliveredKg (Fin q) pol pk =
          Fin (specPolishInput q tp ta tb * (1 - ta / 100) * (1 - tb / 100))"
    using assms by (simp add: polishDeliveredKg_def polin pct_def)
  show prin: "pressInputCircleKg (Fin q) part pol pk = Fin (specPressInput q tp ta tb tc td)"
    using assms by (simp add: pressInputCircleKg_def polin pct_def specPressInput_def)
  show "pressTutKg (Fin q) part pol pk = Fin (specPressInput q tp ta tb tc td * (tc / 100))"
    using assms by (simp add: pressTutKg_def prin pct_def)
  show "pressDeliveredKalaKg (Fin q) part pol pk =
          Fin (specPressInput q tp ta tb tc td * (1 - tc / 100) * (1 - td / 100))"
    using assms by (simp add: pressDeliveredKalaKg_def prin pct_def)
qed

lemma spec_packing_tut: "tp \<noteq> 100 \<Longrightarrow> specPackingInput q tp - q = specPackingInput q tp * (tp / 100)"
  by (simp add: specPackingInput_def field_simps)

lemma spec_polish_out:
  "ta \<noteq> 100 \<Longrightarrow> tb \<noteq> 100 \<Longrightarrow>
   specPolishInput q tp ta tb * (1 - ta / 100) * (1 - tb / 100) = specPackingInput q tp"
  by (simp add: specPolishInput_def)

lemma spec_press_out:
  "tc \<noteq> 100 \<Longrightarrow> td \<noteq> 100 \<Longrightarrow>
   specPressInput q tp ta tb tc td * (1 - tc / 100) * (1 - td / 100) = specPolishInput q tp ta tb"
  by (simp add: specPressInput_def)


lemma cpfc_flow:
  "circleKgIn (flow (computePartForwardCost req part pol pk rate)) = pressInputCircleKg req part pol pk"
  "kalaKgOut (flow (computePartForwardCost req part pol pk rate)) = pressDeliveredKalaKg req part pol pk"
  "polishKgOut (flow (computePartForwardCost req part pol pk rate)) = polishDeliveredKg req pol pk"
  "packedKgOut (flow (computePartForwardCost req part pol pk rate)) = req"
  "scrapKg (flow (computePartForwardCost req part pol pk rate)) =
     pressTutKg req part pol pk + polishTutKg req pol pk + packingTutKg req pk"
  by (simp_all add: computePartForwardCost_def Let_def)

lemma cpfc_components:
  "Components.circleCost (components (computePartForwardCost req part pol pk rate)) =
     pressInputCircleKg req part pol pk * rate"
  "pressCharge (components (computePartForwardCost req part pol pk rate)) =
     pressDeliveredKalaKg req part pol pk * PressStage.ratePerKg (press part)"
  "inductionCharge (components (computePartForwardCost req part pol pk rate)) =
     (if inductionEnabled part \<and> js_gt (inductionRate part) (Fin 0)
      then pressDeliveredKalaKg req part pol pk * inductionRate part else Fin 0)"
  "polishCharge (components (computePartForwardCost req part pol pk rate)) =
     polishDeliveredKg req pol pk * PolishStage.ratePerKg pol"
  "scrapCreditPress (components (computePartForwardCost req part pol pk rate)) =
     (if ScrapReturn.enabled (PressStage.scrapReturn (press part))
      then pressTutKg req part pol pk * ScrapReturn.ratePerKg (PressStage.scrapReturn (press part))
      else Fin 0)"
  "scrapCreditPolish (components (computePartForwardCost req part pol pk rate)) =
     (if ScrapReturn.enabled (PolishStage.scrapReturn pol)
      then polishTutKg req pol pk * ScrapReturn.ratePerKg (PolishStage.scrapReturn pol)
      else Fin 0)"
  "scrapCreditPacking (components (computePartForwardCost req part pol pk rate)) =
     (if ScrapReturn.enabled (PackingStage.scrapReturn pk)
      then packingTutKg req pk * ScrapReturn.ratePerKg (PackingStage.scrapReturn pk)
      else Fin 0)"
  by (simp_all add: computePartForwardCost_def Let_def)

lemma cpfc_totals:
  "StageFlow.scrapCredit (flow (computePartForwardCost req part pol pk rate)) =
     scrapCreditPress (components (computePartForwardCost req part pol pk rate)) +
     scrapCreditPolish (components (computePartForwardCost req part pol pk rate)) +
     scrapCreditPacking (components (computePartForwardCost req part pol pk rate))"
  "partCostExcludingFinalPackingCharge (computePartForwardCost req part pol pk rate) =
     Components.circleCost (components (computePartForwardCost req part pol pk rate)) +
     pressCharge (components (computePartForwardCost req part pol pk rate)) +
     inductionCharge (components (computePartForwardCost req part pol pk rate)) +
     polishCharge (components (computePartForwardCost req part pol pk rate)) -
     StageFlow.scrapCredit (flow (computePartForwardCost req part pol pk rate))"
  by (simp_all add: computePartForwardCost_def Let_def)

lemma belly7_box_fields:
  "PackingStage.tutPct (packing belly7) = Fin 2"
  "PolishStage.tutPct (polish belly7) = Fin 2"
  "PolishStage.wastagePct (polish belly7) = Fin 2"
  "PressStage.tutPct (press (box belly7)) = Fin 3"
  "jobWastagePct (press (box belly7)) = Fin 8"
  by (simp_all add: belly7_def)

lemma belly7_box_loss: "lossOk 2 0" "lossOk 2 2" "lossOk 3 8"
  by (simp_all add: lossOk_def combinedLoss_def)

text \<open>
  C2. For a finite required packed mass \<open>q\<close> and stage percentages whose combined loss
  fractions lie in \<open>[0, 1)\<close>, the inversion computes
  \<open>packingInput = q / (1 - tutPacking/100)\<close>,
  \<open>polishInput = packingInput / ((1 - tutPolish/100) * (1 - wastagePolish/100))\<close> and
  \<open>pressInput = polishInput / ((1 - tutPress/100) * (1 - jobWastagePress/100))\<close>; the scrap
  of each stage is that stage's input times its tut fraction, and the scrap mass of the part
  is the sum of these three: wastage and job wastage add no scrap.
\<close>

theorem stage_inversion:
  assumes "PackingStage.tutPct pk = Fin tp"
    and "PolishStage.tutPct pol = Fin ta" and "PolishStage.wastagePct pol = Fin tb"
    and "PressStage.tutPct (press part) = Fin tc" and "jobWastagePct (press part) = Fin td"
    and "lossOk tp 0" and "lossOk ta tb" and "lossOk tc td"
  shows "packingInputKg (Fin q) pk = Fin (q / (1 - tp / 100))
       \<and> polishInputKalaKg (Fin q) pol pk =
           Fin (specPackingInput q tp / ((1 - ta / 100) * (1 - tb / 100)))
       \<and> pressInputCircleKg (Fin q) part pol pk =
           Fin (specPolishInput q tp ta tb / ((1 - tc / 100) * (1 - td / 100)))
       \<and> pressTutKg (Fin q) part pol pk = Fin (specPressInput q tp ta tb tc td * (tc / 100))
       \<and> polishTutKg (Fin q) pol pk = Fin (specPolishInput q tp ta tb * (ta / 100))
       \<and> packingTutKg (Fin q) pk = Fin (specPackingInput q tp * (tp / 100))
       \<and> scrapKg (flow (computePartForwardCost (Fin q) part pol pk rate)) =
           Fin (specPressInput q tp ta tb tc td * (tc / 100) +
                specPolishInput q tp ta tb * (ta / 100) +
                specPackingInput q tp * (tp / 100))"
proof -
  have nz: "tp \<noteq> 100" "ta \<noteq> 100" "tb \<noteq> 100" "tc \<noteq> 100" "td \<noteq> 100"
    using assms(6-8) by (auto dest: lossOk_nz)
  note fv = flow_values [OF assms(1-5) nz, of q]
  show ?thesis
    by (simp add: fv cpfc_flow spec_packing_tut [OF nz(1)])
       (simp add: specPackingInput_def specPolishInput_def specPressInput_def)
qed

theorem stage_inversion_witness:
  "lossOk 2 0 \<and> lossOk 2 2 \<and> lossOk 3 8
   \<and> PackingStage.tutPct (packing belly7) = Fin 2
   \<and> packingInputKg (Fin 50) (packing belly7) = Fin (50 / (1 - 2 / 100))
   \<and> pressInputCircleKg (Fin 50) (box belly7) (polish belly7) (packing belly7) =
       Fin (specPolishInput 50 2 2 2 / ((1 - 3 / 100) * (1 - 8 / 100)))
   \<and> packingTutKg (Fin 50) (packing belly7) = Fin (specPackingInput 50 2 * (2 / 100))"
  using stage_inversion [OF belly7_box_fields belly7_box_loss, of 50 "Fin 175"]
    belly7_box_loss belly7_box_fields(1)
  by blast

section \<open>Monotonicity of the required circle mass\<close>























section \<open>Billing\<close>

lemma cpfc_packing_rate:
  "computePartForwardCost req part pol (pk\<lparr>packingRatePerKg := r\<rparr>) rate =
   computePartForwardCost req part pol pk rate"
  by (simp add: computePartForwardCost_def Let_def packingInputKg_def packingTutKg_def
      polishInputKalaKg_def polishTutKg_def polishDeliveredKg_def pressInputCircleKg_def
      pressTutKg_def pressDeliveredKalaKg_def)

lemma induction_enabled_charge:
  assumes "induction part = Some i" and "InductionStage.enabled i"
    and "InductionStage.ratePerKg i = Fin ir" and "0 \<le> ir"
  shows "(if inductionEnabled part \<and> js_gt (inductionRate part) (Fin 0)
          then Fin m * inductionRate part else Fin 0) = Fin (m * ir)"
  using assms by (auto simp: inductionEnabled_def inductionRate_def)

lemma induction_disabled_charge:
  assumes "induction part = None \<or> (\<exists>j. induction part = Some j \<and> \<not> InductionStage.enabled j)"
  shows "(if inductionEnabled part \<and> js_gt (inductionRate part) (Fin 0)
          then m * inductionRate part else Fin 0) = Fin 0"
  using assms by (auto simp: inductionEnabled_def)

lemma packing_rate_frame:
  "boxCost (item\<lparr>packing := (packing item)\<lparr>packingRatePerKg := r\<rparr>\<rparr>) s = boxCost item s"
  "coverCost (item\<lparr>packing := (packing item)\<lparr>packingRatePerKg := r\<rparr>\<rparr>) s = coverCost item s"
  "kundaCost (item\<lparr>packing := (packing item)\<lparr>packingRatePerKg := r\<rparr>\<rparr>) s = kundaCost item s"
  "plasticCost (item\<lparr>packing := (packing item)\<lparr>packingRatePerKg := r\<rparr>\<rparr>) s = plasticCost item s"
  "packingCost (item\<lparr>packing := (packing item)\<lparr>packingRatePerKg := r\<rparr>\<rparr>) s = bagStandardKg s * r"
  by (simp_all add: boxCost_def coverCost_def boxCostRes_def coverCostRes_def kundaCost_def
      kundaKg_def plasticCost_def polybagKg_def pipeKg_def packingCost_def batch_defs weight_defs
      cpfc_packing_rate)

lemma belly7_box_rates:
  "PressStage.ratePerKg (press (box belly7)) = Fin 20"
  "PolishStage.ratePerKg (polish belly7) = Fin 72"
  "inductionRate (box belly7) = Fin 10"
  "ScrapReturn.ratePerKg (PressStage.scrapReturn (press (box belly7))) = Fin 50"
  "ScrapReturn.ratePerKg (PolishStage.scrapReturn (polish belly7)) = Fin 50"
  "ScrapReturn.ratePerKg (PackingStage.scrapReturn (packing belly7)) = Fin 50"
  by (simp_all add: belly7_def inductionRate_def DEFAULT_INDUCTION_def)

lemma belly7_box_induction_fields:
  "PressStage.tutPct (press belly7_box_induction) = Fin 3"
  "jobWastagePct (press belly7_box_induction) = Fin 8"
  "PressStage.ratePerKg (press belly7_box_induction) = Fin 20"
  "ScrapReturn.ratePerKg (PressStage.scrapReturn (press belly7_box_induction)) = Fin 50"
  "induction belly7_box_induction =
     Some \<lparr> InductionStage.enabled = True, InductionStage.ratePerKg = Fin 10 \<rparr>"
  by (simp_all add: belly7_box_induction_def belly7_def)

text \<open>
  C3. For one part, with finite inputs and combined loss fractions in \<open>[0, 1)\<close>: the press
  delivers what polish takes in and polish delivers what packing takes in; the press and
  polish charges are the mass delivered back by the stage times the stage's rate; the
  induction charge of a part whose induction stage is present and enabled, with a rate that
  is not negative, is the mass delivered by the press times that rate, and it is 0 for a part
  whose induction stage is absent or disabled; the circle cost is the press input mass times
  the circle rate; the scrap credit sums, over press, polish and packing, the stage's scrap
  mass times its scrap rate for the stages whose scrap return is enabled; and the part cost
  is circle cost plus the three charges minus the scrap credit. The packing rate has no
  influence on the cost of a part, of the kunda or of the plastic: whatever packing rate
  \<open>anyRate\<close> an item is given, its final cost is the unchanged four costs plus
  \<open>bagStandardKg * anyRate\<close>, so the packing charge enters once, on the whole bag. The circle
  rate that \<open>calculate\<close> passes for a part is the resolved circle rate of that part.
\<close>

theorem billing_on_delivered_mass:
  assumes f: "PackingStage.tutPct pk = Fin tp"
    "PolishStage.tutPct pol = Fin ta" "PolishStage.wastagePct pol = Fin tb"
    "PressStage.tutPct (press part) = Fin tc" "jobWastagePct (press part) = Fin td"
    and l: "lossOk tp 0" "lossOk ta tb" "lossOk tc td"
    and r: "PressStage.ratePerKg (press part) = Fin pressRate"
      "PolishStage.ratePerKg pol = Fin polishRate"
    and s: "ScrapReturn.ratePerKg (PressStage.scrapReturn (press part)) = Fin s1"
      "ScrapReturn.ratePerKg (PolishStage.scrapReturn pol) = Fin s2"
      "ScrapReturn.ratePerKg (PackingStage.scrapReturn pk) = Fin s3"
    and res: "res = computePartForwardCost (Fin q) part pol pk (Fin circleRate)"
    and m: "pressIn = specPressInput q tp ta tb tc td" "polishIn = specPolishInput q tp ta tb"
      "packingIn = specPackingInput q tp"
  shows "kalaKgOut (flow res) = Fin polishIn
       \<and> polishKgOut (flow res) = Fin packingIn
       \<and> pressCharge (components res) = Fin (polishIn * pressRate)
       \<and> polishCharge (components res) = Fin (packingIn * polishRate)
       \<and> (induction part = Some i \<and> InductionStage.enabled i \<and>
            InductionStage.ratePerKg i = Fin indRate \<and> 0 \<le> indRate \<longrightarrow>
            inductionCharge (components res) = Fin (polishIn * indRate))
       \<and> (induction part = None \<or>
            (\<exists>j. induction part = Some j \<and> \<not> InductionStage.enabled j) \<longrightarrow>
            inductionCharge (components res) = Fin 0)
       \<and> Components.circleCost (components res) = Fin (pressIn * circleRate)
       \<and> scrapCreditPress (components res) =
           (if ScrapReturn.enabled (PressStage.scrapReturn (press part))
            then Fin (pressIn * (tc / 100) * s1) else Fin 0)
       \<and> scrapCreditPolish (components res) =
           (if ScrapReturn.enabled (PolishStage.scrapReturn pol)
            then Fin (polishIn * (ta / 100) * s2) else Fin 0)
       \<and> scrapCreditPacking (components res) =
           (if ScrapReturn.enabled (PackingStage.scrapReturn pk)
            then Fin (packingIn * (tp / 100) * s3) else Fin 0)
       \<and> StageFlow.scrapCredit (flow res) =
           scrapCreditPress (components res) + scrapCreditPolish (components res) +
           scrapCreditPacking (components res)
       \<and> partCostExcludingFinalPackingCharge res =
           Components.circleCost (components res) + pressCharge (components res) +
           inductionCharge (components res) + polishCharge (components res) -
           StageFlow.scrapCredit (flow res)
       \<and> computePartForwardCost (Fin q) part pol (pk\<lparr>packingRatePerKg := anyRate\<rparr>)
           (Fin circleRate) = res
       \<and> finalCost (item\<lparr>packing := (packing item)\<lparr>packingRatePerKg := anyRate\<rparr>\<rparr>) settings =
           boxCost item settings + coverCost item settings + kundaCost item settings +
           plasticCost item settings + bagStandardKg settings * anyRate
       \<and> finalCost item settings =
           boxCost item settings + coverCost item settings + kundaCost item settings +
           plasticCost item settings + bagStandardKg settings * packingRatePerKg (packing item)
       \<and> boxCostRes item settings =
           computePartForwardCost (totalBoxKgPacked item settings) (box item) (polish item)
             (packing item) (resolvePartCircleRatePerKg (box item) settings)
       \<and> coverCostRes item settings =
           computePartForwardCost (totalCoverKgPacked item settings) (cover item) (polish item)
             (packing item) (resolvePartCircleRatePerKg (cover item) settings)"
proof -
  have nz: "tp \<noteq> 100" "ta \<noteq> 100" "tb \<noteq> 100" "tc \<noteq> 100" "td \<noteq> 100"
    using l by (auto dest: lossOk_nz)
  note fv = flow_values [OF f nz, of q]
  have pd: "pressDeliveredKalaKg (Fin q) part pol pk = Fin polishIn"
    by (simp add: fv m spec_press_out [OF nz(4,5)])
  have pold: "polishDeliveredKg (Fin q) pol pk = Fin packingIn"
    by (simp add: fv m spec_polish_out [OF nz(2,3)])
  have ptut: "packingTutKg (Fin q) pk = Fin (packingIn * (tp / 100))"
    by (simp add: fv m spec_packing_tut [OF nz(1)])
  have 1: "kalaKgOut (flow res) = Fin polishIn" "polishKgOut (flow res) = Fin packingIn"
    by (simp_all add: res cpfc_flow pd pold)
  have 2: "pressCharge (components res) = Fin (polishIn * pressRate)"
    "polishCharge (components res) = Fin (packingIn * polishRate)"
    "Components.circleCost (components res) = Fin (pressIn * circleRate)"
    by (simp_all add: res cpfc_components pd pold r fv m)
  have 3: "induction part = Some i \<and> InductionStage.enabled i \<and>
            InductionStage.ratePerKg i = Fin indRate \<and> 0 \<le> indRate \<longrightarrow>
            inductionCharge (components res) = Fin (polishIn * indRate)"
  proof (intro impI, elim conjE)
    assume a: "induction part = Some i" "InductionStage.enabled i"
      "InductionStage.ratePerKg i = Fin indRate" "0 \<le> indRate"
    show "inductionCharge (components res) = Fin (polishIn * indRate)"
      unfolding res cpfc_components pd by (rule induction_enabled_charge [OF a])
  qed
  have 9: "induction part = None \<or>
            (\<exists>j. induction part = Some j \<and> \<not> InductionStage.enabled j) \<longrightarrow>
            inductionCharge (components res) = Fin 0"
    unfolding res cpfc_components by (rule impI) (rule induction_disabled_charge)
  have 4: "scrapCreditPress (components res) =
           (if ScrapReturn.enabled (PressStage.scrapReturn (press part))
            then Fin (pressIn * (tc / 100) * s1) else Fin 0)"
    "scrapCreditPolish (components res) =
           (if ScrapReturn.enabled (PolishStage.scrapReturn pol)
            then Fin (polishIn * (ta / 100) * s2) else Fin 0)"
    "scrapCreditPacking (components res) =
           (if ScrapReturn.enabled (PackingStage.scrapReturn pk)
            then Fin (packingIn * (tp / 100) * s3) else Fin 0)"
    by (simp_all add: res cpfc_components fv(4,7) ptut s m)
  have 5: "StageFlow.scrapCredit (flow res) =
           scrapCreditPress (components res) + scrapCreditPolish (components res) +
           scrapCreditPacking (components res)"
    "partCostExcludingFinalPackingCharge res =
           Components.circleCost (components res) + pressCharge (components res) +
           inductionCharge (components res) + polishCharge (components res) -
           StageFlow.scrapCredit (flow res)"
    unfolding res by (rule cpfc_totals)+
  have 6: "computePartForwardCost (Fin q) part pol (pk\<lparr>packingRatePerKg := anyRate\<rparr>)
           (Fin circleRate) = res"
    by (simp add: res cpfc_packing_rate)
  have 7: "finalCost (item\<lparr>packing := (packing item)\<lparr>packingRatePerKg := anyRate\<rparr>\<rparr>) settings =
           boxCost item settings + coverCost item settings + kundaCost item settings +
           plasticCost item settings + bagStandardKg settings * anyRate"
    "finalCost item settings =
           boxCost item settings + coverCost item settings + kundaCost item settings +
           plasticCost item settings + bagStandardKg settings * packingRatePerKg (packing item)"
    unfolding finalCost_def packing_rate_frame by (simp_all add: packingCost_def)
  have 8: "boxCostRes item settings =
           computePartForwardCost (totalBoxKgPacked item settings) (box item) (polish item)
             (packing item) (resolvePartCircleRatePerKg (box item) settings)"
    "coverCostRes item settings =
           computePartForwardCost (totalCoverKgPacked item settings) (cover item) (polish item)
             (packing item) (resolvePartCircleRatePerKg (cover item) settings)"
    by (simp_all add: boxCostRes_def coverCostRes_def)
  from 1 2 3 9 4 5 6 7 8 show ?thesis by blast
qed

theorem billing_on_delivered_mass_witness:
  "lossOk 2 0 \<and> lossOk 2 2 \<and> lossOk 3 8 \<and> (0::real) \<le> 10
   \<and> induction belly7_box_induction =
       Some \<lparr> InductionStage.enabled = True, InductionStage.ratePerKg = Fin 10 \<rparr>
   \<and> inductionCharge (components (computePartForwardCost (Fin 50) belly7_box_induction
        (polish belly7) (packing belly7) (Fin 175))) = Fin (specPolishInput 50 2 2 2 * 10)
   \<and> induction ((box belly7)\<lparr>induction := None\<rparr>) = None
   \<and> inductionCharge (components (computePartForwardCost (Fin 50)
        ((box belly7)\<lparr>induction := None\<rparr>) (polish belly7) (packing belly7) (Fin 175))) = Fin 0
   \<and> pressCharge (components (computePartForwardCost (Fin 50) belly7_box_induction
        (polish belly7) (packing belly7) (Fin 175))) = Fin (specPolishInput 50 2 2 2 * 20)
   \<and> polishCharge (components (computePartForwardCost (Fin 50) belly7_box_induction
        (polish belly7) (packing belly7) (Fin 175))) = Fin (specPackingInput 50 2 * 72)
   \<and> Components.circleCost (components (computePartForwardCost (Fin 50) belly7_box_induction
        (polish belly7) (packing belly7) (Fin 175))) = Fin (specPressInput 50 2 2 2 3 8 * 175)"
proof -
  have i: "(0::real) \<le> 10" by simp
  have e: "InductionStage.enabled \<lparr> InductionStage.enabled = True, InductionStage.ratePerKg = Fin 10 \<rparr>"
    "InductionStage.ratePerKg \<lparr> InductionStage.enabled = True, InductionStage.ratePerKg = Fin 10 \<rparr> = Fin 10"
    by simp_all
  have n: "induction ((box belly7)\<lparr>induction := None\<rparr>) = None" by simp
  have nf: "PressStage.tutPct (press ((box belly7)\<lparr>induction := None\<rparr>)) = Fin 3"
    "jobWastagePct (press ((box belly7)\<lparr>induction := None\<rparr>)) = Fin 8"
    "PressStage.ratePerKg (press ((box belly7)\<lparr>induction := None\<rparr>)) = Fin 20"
    "ScrapReturn.ratePerKg (PressStage.scrapReturn (press ((box belly7)\<lparr>induction := None\<rparr>))) = Fin 50"
    by (simp_all add: belly7_def)
  from billing_on_delivered_mass [OF belly7_box_fields(1-3) belly7_box_induction_fields(1,2) belly7_box_loss
      belly7_box_induction_fields(3) belly7_box_rates(2) belly7_box_induction_fields(4)
      belly7_box_rates(5,6) refl refl refl refl,
      where i = "\<lparr> InductionStage.enabled = True, InductionStage.ratePerKg = Fin 10 \<rparr>"
        and indRate = 10]
    billing_on_delivered_mass [OF belly7_box_fields(1-3) nf(1,2) belly7_box_loss nf(3) belly7_box_rates(2) nf(4)
      belly7_box_rates(5,6) refl refl refl refl]
    belly7_box_loss i belly7_box_induction_fields(5) e n
  show ?thesis by blast
qed

section \<open>Valid inputs and inputs with a loss of 1\<close>

lemma isFiniteE: assumes "isFinite x" obtains r where "x = Fin r"
  using assms by (cases x) simp_all

lemma isPos_Fin [simp]: "isPos (Fin r) = (0 < r)" by (simp add: isPos_def)
lemma isNonneg_Fin [simp]: "isNonneg (Fin r) = (0 \<le> r)" by (simp add: isNonneg_def)
lemma isPct_Fin [simp]: "isPct (Fin r) = (0 \<le> r \<and> r < 100)" by (simp add: isPct_def)

lemma isPosE: assumes "isPos x" obtains r where "x = Fin r" "0 < r"
  using assms by (cases x) (simp_all add: isPos_def)
lemma isNonnegE: assumes "isNonneg x" obtains r where "x = Fin r" "0 \<le> r"
  using assms by (cases x) (simp_all add: isNonneg_def)
lemma isPctE: assumes "isPct x" obtains r where "x = Fin r" "0 \<le> r" "r < 100"
  using assms by (cases x) (simp_all add: isPct_def)

lemma isPos_isFinite: "isPos x \<Longrightarrow> isFinite x" by (simp add: isPos_def)
lemma isNonneg_isFinite: "isNonneg x \<Longrightarrow> isFinite x" by (simp add: isNonneg_def)
lemma isPos_isNonneg: "isPos x \<Longrightarrow> isNonneg x" by (simp add: isPos_def isNonneg_def)

lemma fin_plus: "isFinite a \<Longrightarrow> isFinite b \<Longrightarrow> isFinite (a + b) \<and> val (a + b) = val a + val b"
  by (elim isFiniteE) simp
lemma fin_minus: "isFinite a \<Longrightarrow> isFinite b \<Longrightarrow> isFinite (a - b) \<and> val (a - b) = val a - val b"
  by (elim isFiniteE) simp
lemma fin_times: "isFinite a \<Longrightarrow> isFinite b \<Longrightarrow> isFinite (a * b) \<and> val (a * b) = val a * val b"
  by (elim isFiniteE) simp

lemma pos_times: "isPos a \<Longrightarrow> isPos b \<Longrightarrow> isPos (a * b)"
  by (elim isPosE) simp
lemma pos_divide: "isPos a \<Longrightarrow> isPos b \<Longrightarrow> isPos (a / b)"
  by (elim isPosE) simp
lemma pos_plus: "isPos a \<Longrightarrow> isPos b \<Longrightarrow> isPos (a + b)"
  by (elim isPosE) simp
lemma pos_plus_nonneg: "isPos a \<Longrightarrow> isNonneg b \<Longrightarrow> isPos (a + b)"
  by (elim isPosE isNonnegE) simp
lemma pos_keep: "isPct x \<Longrightarrow> isPos (Fin 1 - pct x)"
  by (elim isPctE) (simp add: pct_def)

lemma pos_circleWeightG: "isPos d \<Longrightarrow> isPos t \<Longrightarrow> isPos (circleWeightG d t)"
  by (elim isPosE) (simp add: circleWeightG_Fin)

lemma valid_weights:
  assumes "validInput item s"
  shows "isPos (boxAfterPolishG item)" and "isPos (coverAfterPolishG item)"
    and "isNonneg (kundaG item)" and "isPos (polybagG item)" and "isPos (pipePerPcG item)"
    and "isPos (totalPackedG item)"
proof -
  have b: "validPart (box item)" and c: "validPart (cover item)"
    and p: "validPolish (polish item)" and k: "validKunda (kunda item)"
    and g: "validBagProfile (bagProfile item)"
    using assms by (simp_all add: validInput_def)
  show 1: "isPos (boxAfterPolishG item)"
    unfolding boxAfterPolishG_def boxAfterPressG_def boxCircleG_def
    using b p by (intro pos_times pos_circleWeightG pos_keep)
      (simp_all add: validPart_def validPress_def validPolish_def)
  show 2: "isPos (coverAfterPolishG item)"
    unfolding coverAfterPolishG_def coverAfterPressG_def coverCircleG_def
    using c p by (intro pos_times pos_circleWeightG pos_keep)
      (simp_all add: validPart_def validPress_def validPolish_def)
  show 3: "isNonneg (kundaG item)"
    using k by (simp add: kundaG_def validKunda_def)
  show 4: "isPos (polybagG item)"
    unfolding polybagG_def polybagWeightG_def
    using g by (intro pos_times pos_divide) (simp_all add: validBagProfile_def)
  show 5: "isPos (pipePerPcG item)"
    unfolding pipePerPcG_def pipeWeightG_def
    using g by (intro pos_times pos_divide) (simp_all add: validBagProfile_def)
  show "isPos (totalPackedG item)"
    unfolding totalPackedG_def
    by (intro pos_plus pos_plus_nonneg 1 2 3 4 5)
qed

lemma valid_batch:
  assumes "validInput item s"
  shows "isPos (pcsPerBag item s)" and "isPos (totalBoxKgPacked item s)"
    and "isPos (totalCoverKgPacked item s)"
proof -
  have bag: "isPos (bagStandardKg s)"
    using assms by (simp add: validInput_def validSettings_def)
  show 1: "isPos (pcsPerBag item s)"
    unfolding pcsPerBag_def
    using bag valid_weights(6) [OF assms] by (intro pos_times pos_divide) simp_all
  show "isPos (totalBoxKgPacked item s)"
    unfolding totalBoxKgPacked_def pcs_def
    using 1 valid_weights(1) [OF assms] by (intro pos_times pos_divide) simp_all
  show "isPos (totalCoverKgPacked item s)"
    unfolding totalCoverKgPacked_def pcs_def
    using 1 valid_weights(2) [OF assms] by (intro pos_times pos_divide) simp_all
qed


lemma pct_nz: "0 \<le> r \<Longrightarrow> r < 100 \<Longrightarrow> r \<noteq> (100::real)" by simp

lemma valid_inductionRate:
  "validPart part \<Longrightarrow> isNonneg (inductionRate part)"
  by (simp add: validPart_def inductionRate_def split: option.splits)

lemma valid_part_costs:
  assumes part: "validPart part" and pol: "validPolish pol" and pk: "validPacking pk"
    and req: "isFinite req" and rate: "isFinite rate"
  shows "isFinite (Components.circleCost (components (computePartForwardCost req part pol pk rate)))"
    and "isFinite (pressCharge (components (computePartForwardCost req part pol pk rate)))"
    and "isFinite (inductionCharge (components (computePartForwardCost req part pol pk rate)))"
    and "isFinite (polishCharge (components (computePartForwardCost req part pol pk rate)))"
    and "isFinite (StageFlow.scrapCredit (flow (computePartForwardCost req part pol pk rate)))"
    and "isFinite (circleKgIn (flow (computePartForwardCost req part pol pk rate)))"
proof -
  obtain q where q: "req = Fin q" using req by (rule isFiniteE)
  obtain cr where cr: "rate = Fin cr" using rate by (rule isFiniteE)
  have pr: "validPress (press part)" using part by (simp add: validPart_def)
  obtain tp where tp: "PackingStage.tutPct pk = Fin tp" "0 \<le> tp" "tp < 100"
    using pk by (auto simp: validPacking_def elim: isPctE)
  obtain ta where ta: "PolishStage.tutPct pol = Fin ta" "0 \<le> ta" "ta < 100"
    using pol by (auto simp: validPolish_def elim: isPctE)
  obtain tb where tb: "PolishStage.wastagePct pol = Fin tb" "0 \<le> tb" "tb < 100"
    using pol by (auto simp: validPolish_def elim: isPctE)
  obtain tc where tc: "PressStage.tutPct (press part) = Fin tc" "0 \<le> tc" "tc < 100"
    using pr by (auto simp: validPress_def elim: isPctE)
  obtain td where td: "jobWastagePct (press part) = Fin td" "0 \<le> td" "td < 100"
    using pr by (auto simp: validPress_def elim: isPctE)
  obtain r1 where r1: "PressStage.ratePerKg (press part) = Fin r1"
    using pr by (auto simp: validPress_def elim: isNonnegE)
  obtain r2 where r2: "PolishStage.ratePerKg pol = Fin r2"
    using pol by (auto simp: validPolish_def elim: isNonnegE)
  obtain ir where ir: "inductionRate part = Fin ir"
    using valid_inductionRate [OF part] by (auto elim: isNonnegE)
  obtain s1 where s1: "ScrapReturn.ratePerKg (PressStage.scrapReturn (press part)) = Fin s1"
    using pr by (auto simp: validPress_def elim: isNonnegE)
  obtain s2 where s2: "ScrapReturn.ratePerKg (PolishStage.scrapReturn pol) = Fin s2"
    using pol by (auto simp: validPolish_def elim: isNonnegE)
  obtain s3 where s3: "ScrapReturn.ratePerKg (PackingStage.scrapReturn pk) = Fin s3"
    using pk by (auto simp: validPacking_def elim: isNonnegE)
  note fv = flow_values [OF tp(1) ta(1) tb(1) tc(1) td(1)
      pct_nz [OF tp(2,3)] pct_nz [OF ta(2,3)] pct_nz [OF tb(2,3)] pct_nz [OF tc(2,3)]
      pct_nz [OF td(2,3)], of q]
  show "isFinite (Components.circleCost (components (computePartForwardCost req part pol pk rate)))"
    by (simp add: cpfc_components q cr fv)
  show "isFinite (pressCharge (components (computePartForwardCost req part pol pk rate)))"
    by (simp add: cpfc_components q fv r1)
  show "isFinite (inductionCharge (components (computePartForwardCost req part pol pk rate)))"
    by (simp add: cpfc_components q fv ir)
  show "isFinite (polishCharge (components (computePartForwardCost req part pol pk rate)))"
    by (simp add: cpfc_components q fv r2)
  show "isFinite (StageFlow.scrapCredit (flow (computePartForwardCost req part pol pk rate)))"
    by (simp add: cpfc_totals cpfc_components q fv s1 s2 s3)
  show "isFinite (circleKgIn (flow (computePartForwardCost req part pol pk rate)))"
    by (simp add: cpfc_flow q fv)
qed

lemma valid_part_cost_value:
  assumes part: "validPart part" and pol: "validPolish pol" and pk: "validPacking pk"
    and req: "isFinite req" and rate: "isFinite rate"
  shows "isFinite (partCostExcludingFinalPackingCharge (computePartForwardCost req part pol pk rate))"
    and "val (partCostExcludingFinalPackingCharge (computePartForwardCost req part pol pk rate)) =
      val (Components.circleCost (components (computePartForwardCost req part pol pk rate))) +
      val (pressCharge (components (computePartForwardCost req part pol pk rate))) +
      val (inductionCharge (components (computePartForwardCost req part pol pk rate))) +
      val (polishCharge (components (computePartForwardCost req part pol pk rate))) -
      val (StageFlow.scrapCredit (flow (computePartForwardCost req part pol pk rate)))"
proof -
  note f = valid_part_costs [OF assms]
  obtain a where a: "Components.circleCost (components (computePartForwardCost req part pol pk rate)) = Fin a"
    using f(1) by (rule isFiniteE)
  obtain b where b: "pressCharge (components (computePartForwardCost req part pol pk rate)) = Fin b"
    using f(2) by (rule isFiniteE)
  obtain c where c: "inductionCharge (components (computePartForwardCost req part pol pk rate)) = Fin c"
    using f(3) by (rule isFiniteE)
  obtain d where d: "polishCharge (components (computePartForwardCost req part pol pk rate)) = Fin d"
    using f(4) by (rule isFiniteE)
  obtain e where e: "StageFlow.scrapCredit (flow (computePartForwardCost req part pol pk rate)) = Fin e"
    using f(5) by (rule isFiniteE)
  show "isFinite (partCostExcludingFinalPackingCharge (computePartForwardCost req part pol pk rate))"
    unfolding cpfc_totals(2) a b c d e by simp
  show "val (partCostExcludingFinalPackingCharge (computePartForwardCost req part pol pk rate)) =
      val (Components.circleCost (components (computePartForwardCost req part pol pk rate))) +
      val (pressCharge (components (computePartForwardCost req part pol pk rate))) +
      val (inductionCharge (components (computePartForwardCost req part pol pk rate))) +
      val (polishCharge (components (computePartForwardCost req part pol pk rate))) -
      val (StageFlow.scrapCredit (flow (computePartForwardCost req part pol pk rate)))"
    unfolding cpfc_totals(2) a b c d e by simp
qed

lemma valid_fallback: "validSettings s \<Longrightarrow> isFinite (fallbackCircleRate s)"
  unfolding validSettings_def fallbackCircleRate_def js_or_def
  by (elim conjE isNonnegE isPosE) simp

lemma valid_resolve: "validSettings s \<Longrightarrow> isFinite (resolvePartCircleRatePerKg part s)"
  by (simp add: resolvePartCircleRatePerKg_def valid_fallback split: option.splits)


lemma valid_simple_costs:
  assumes v: "validInput item s"
  shows "isFinite (kundaCost item s)" and "isFinite (plasticCost item s)"
    and "isFinite (packingCost item s)"
proof -
  obtain n where n: "pcsPerBag item s = Fin n"
    using valid_batch(1) [OF v] by (auto elim: isPosE)
  obtain kg where kg: "kundaG item = Fin kg"
    using valid_weights(3) [OF v] by (auto elim: isNonnegE)
  obtain pg where pg: "polybagG item = Fin pg"
    using valid_weights(4) [OF v] by (auto elim: isPosE)
  obtain ppg where ppg: "pipePerPcG item = Fin ppg"
    using valid_weights(5) [OF v] by (auto elim: isPosE)
  obtain kr where kr: "KundaSpec.ratePerKg (kunda item) = Fin kr"
    using v by (auto simp: validInput_def validKunda_def elim: isNonnegE)
  obtain r1 where r1: "Polybag.ratePerKg (polybag (bagProfile item)) = Fin r1"
    using v by (auto simp: validInput_def validBagProfile_def elim: isNonnegE)
  obtain r2 where r2: "Pipe.ratePerKg (pipe (bagProfile item)) = Fin r2"
    using v by (auto simp: validInput_def validBagProfile_def elim: isNonnegE)
  obtain bag where bag: "bagStandardKg s = Fin bag"
    using v by (auto simp: validInput_def validSettings_def elim: isPosE)
  obtain pr where pr: "packingRatePerKg (packing item) = Fin pr"
    using v by (auto simp: validInput_def validPacking_def elim: isNonnegE)
  show "isFinite (kundaCost item s)"
    by (simp add: kundaCost_def kundaKg_def pcs_def n kg kr)
  show "isFinite (plasticCost item s)"
    by (simp add: plasticCost_def polybagKg_def pipeKg_def pcs_def n pg ppg r1 r2)
  show "isFinite (packingCost item s)"
    by (simp add: packingCost_def bag pr)
qed

lemma valid_box:
  assumes v: "validInput item s"
  shows "isFinite (Components.circleCost (components (boxCostRes item s)))"
    and "isFinite (pressCharge (components (boxCostRes item s)))"
    and "isFinite (inductionCharge (components (boxCostRes item s)))"
    and "isFinite (polishCharge (components (boxCostRes item s)))"
    and "isFinite (StageFlow.scrapCredit (flow (boxCostRes item s)))"
    and "isFinite (circleKgIn (flow (boxCostRes item s)))"
    and "isFinite (boxCost item s)"
    and "val (boxCost item s) =
      val (Components.circleCost (components (boxCostRes item s))) +
      val (pressCharge (components (boxCostRes item s))) +
      val (inductionCharge (components (boxCostRes item s))) +
      val (polishCharge (components (boxCostRes item s))) -
      val (StageFlow.scrapCredit (flow (boxCostRes item s)))"
proof -
  have h: "validPart (box item)" "validPolish (polish item)" "validPacking (packing item)"
    "isFinite (totalBoxKgPacked item s)" "isFinite (resolvePartCircleRatePerKg (box item) s)"
    using v valid_batch(2) [OF v]
    by (simp_all add: validInput_def valid_resolve isPos_isFinite)
  show "isFinite (Components.circleCost (components (boxCostRes item s)))"
    and "isFinite (pressCharge (components (boxCostRes item s)))"
    and "isFinite (inductionCharge (components (boxCostRes item s)))"
    and "isFinite (polishCharge (components (boxCostRes item s)))"
    and "isFinite (StageFlow.scrapCredit (flow (boxCostRes item s)))"
    and "isFinite (circleKgIn (flow (boxCostRes item s)))"
    unfolding boxCostRes_def by (rule valid_part_costs [OF h])+
  show "isFinite (boxCost item s)"
    unfolding boxCost_def boxCostRes_def by (rule valid_part_cost_value(1) [OF h])
  show "val (boxCost item s) =
      val (Components.circleCost (components (boxCostRes item s))) +
      val (pressCharge (components (boxCostRes item s))) +
      val (inductionCharge (components (boxCostRes item s))) +
      val (polishCharge (components (boxCostRes item s))) -
      val (StageFlow.scrapCredit (flow (boxCostRes item s)))"
    unfolding boxCost_def boxCostRes_def by (rule valid_part_cost_value(2) [OF h])
qed

lemma valid_cover:
  assumes v: "validInput item s"
  shows "isFinite (Components.circleCost (components (coverCostRes item s)))"
    and "isFinite (pressCharge (components (coverCostRes item s)))"
    and "isFinite (inductionCharge (components (coverCostRes item s)))"
    and "isFinite (polishCharge (components (coverCostRes item s)))"
    and "isFinite (StageFlow.scrapCredit (flow (coverCostRes item s)))"
    and "isFinite (circleKgIn (flow (coverCostRes item s)))"
    and "isFinite (coverCost item s)"
    and "val (coverCost item s) =
      val (Components.circleCost (components (coverCostRes item s))) +
      val (pressCharge (components (coverCostRes item s))) +
      val (inductionCharge (components (coverCostRes item s))) +
      val (polishCharge (components (coverCostRes item s))) -
      val (StageFlow.scrapCredit (flow (coverCostRes item s)))"
proof -
  have h: "validPart (cover item)" "validPolish (polish item)" "validPacking (packing item)"
    "isFinite (totalCoverKgPacked item s)" "isFinite (resolvePartCircleRatePerKg (cover item) s)"
    using v valid_batch(3) [OF v]
    by (simp_all add: validInput_def valid_resolve isPos_isFinite)
  show "isFinite (Components.circleCost (components (coverCostRes item s)))"
    and "isFinite (pressCharge (components (coverCostRes item s)))"
    and "isFinite (inductionCharge (components (coverCostRes item s)))"
    and "isFinite (polishCharge (components (coverCostRes item s)))"
    and "isFinite (StageFlow.scrapCredit (flow (coverCostRes item s)))"
    and "isFinite (circleKgIn (flow (coverCostRes item s)))"
    unfolding coverCostRes_def by (rule valid_part_costs [OF h])+
  show "isFinite (coverCost item s)"
    unfolding coverCost_def coverCostRes_def by (rule valid_part_cost_value(1) [OF h])
  show "val (coverCost item s) =
      val (Components.circleCost (components (coverCostRes item s))) +
      val (pressCharge (components (coverCostRes item s))) +
      val (inductionCharge (components (coverCostRes item s))) +
      val (polishCharge (components (coverCostRes item s))) -
      val (StageFlow.scrapCredit (flow (coverCostRes item s)))"
    unfolding coverCost_def coverCostRes_def by (rule valid_part_cost_value(2) [OF h])
qed

lemma valid_totals:
  assumes v: "validInput item s"
  shows "isFinite (circleCost item s)" and "isFinite (pressCost item s)"
    and "isFinite (inductionCost item s)" and "isFinite (polishCost item s)"
    and "isFinite (scrapCredit item s)" and "isFinite (finalCost item s)"
    and "val (finalCost item s) =
           val (circleCost item s) + val (pressCost item s) + val (inductionCost item s) +
           val (polishCost item s) + val (packingCost item s) + val (kundaCost item s) +
           val (plasticCost item s) - val (scrapCredit item s)"
    and "isFinite (circleKgIn (flow (boxCostRes item s)) + circleKgIn (flow (coverCostRes item s)))"
proof -
  note b = valid_box [OF v] and c = valid_cover [OF v] and k = valid_simple_costs [OF v]
  show 1: "isFinite (circleCost item s)"
    unfolding circleCost_def using fin_plus [OF b(1) c(1)] by simp
  show 2: "isFinite (pressCost item s)"
    unfolding pressCost_def using fin_plus [OF b(2) c(2)] by simp
  show 3: "isFinite (inductionCost item s)"
    unfolding inductionCost_def using fin_plus [OF b(3) c(3)] by simp
  show 4: "isFinite (polishCost item s)"
    unfolding polishCost_def using fin_plus [OF b(4) c(4)] by simp
  show 5: "isFinite (scrapCredit item s)"
    unfolding scrapCredit_def using fin_plus [OF b(5) c(5)] by simp
  show "isFinite (circleKgIn (flow (boxCostRes item s)) + circleKgIn (flow (coverCostRes item s)))"
    using fin_plus [OF b(6) c(6)] by simp
  have s1: "isFinite (boxCost item s + coverCost item s)"
    "val (boxCost item s + coverCost item s) = val (boxCost item s) + val (coverCost item s)"
    using fin_plus [OF b(7) c(7)] by simp_all
  have s2: "isFinite (boxCost item s + coverCost item s + kundaCost item s)"
    "val (boxCost item s + coverCost item s + kundaCost item s) =
       val (boxCost item s) + val (coverCost item s) + val (kundaCost item s)"
    using fin_plus [OF s1(1) k(1)] s1(2) by simp_all
  have s3: "isFinite (boxCost item s + coverCost item s + kundaCost item s + plasticCost item s)"
    "val (boxCost item s + coverCost item s + kundaCost item s + plasticCost item s) =
       val (boxCost item s) + val (coverCost item s) + val (kundaCost item s) +
       val (plasticCost item s)"
    using fin_plus [OF s2(1) k(2)] s2(2) by simp_all
  have s4: "isFinite (finalCost item s)"
    "val (finalCost item s) =
       val (boxCost item s) + val (coverCost item s) + val (kundaCost item s) +
       val (plasticCost item s) + val (packingCost item s)"
    unfolding finalCost_def using fin_plus [OF s3(1) k(3)] s3(2) by simp_all
  show "isFinite (finalCost item s)" by (rule s4(1))
  have t: "val (circleCost item s) =
        val (Components.circleCost (components (boxCostRes item s))) +
        val (Components.circleCost (components (coverCostRes item s)))"
      "val (pressCost item s) =
        val (pressCharge (components (boxCostRes item s))) +
        val (pressCharge (components (coverCostRes item s)))"
      "val (inductionCost item s) =
        val (inductionCharge (components (boxCostRes item s))) +
        val (inductionCharge (components (coverCostRes item s)))"
      "val (polishCost item s) =
        val (polishCharge (components (boxCostRes item s))) +
        val (polishCharge (components (coverCostRes item s)))"
      "val (scrapCredit item s) =
        val (StageFlow.scrapCredit (flow (boxCostRes item s))) +
        val (StageFlow.scrapCredit (flow (coverCostRes item s)))"
    unfolding circleCost_def pressCost_def inductionCost_def polishCost_def scrapCredit_def
    using fin_plus [OF b(1) c(1)] fin_plus [OF b(2) c(2)] fin_plus [OF b(3) c(3)]
      fin_plus [OF b(4) c(4)] fin_plus [OF b(5) c(5)] by simp_all
  show "val (finalCost item s) =
           val (circleCost item s) + val (pressCost item s) + val (inductionCost item s) +
           val (polishCost item s) + val (packingCost item s) + val (kundaCost item s) +
           val (plasticCost item s) - val (scrapCredit item s)"
    unfolding s4(2) b(8) c(8) t by simp
qed

lemma r2_Fin: "r2 (Fin a) = Fin (of_int \<lfloor>a * 100 + 1 / 2\<rfloor> / 100)"
  by (simp add: r2_def)

lemma r3_Fin: "r3 (Fin a) = Fin (of_int \<lfloor>a * 1000 + 1 / 2\<rfloor> / 1000)"
  by (simp add: r3_def)

lemma r2_finite: "isFinite x \<Longrightarrow> isFinite (r2 x)"
  by (elim isFiniteE) (simp add: r2_Fin)

lemma r3_finite: "isFinite x \<Longrightarrow> isFinite (r3 x)"
  by (elim isFiniteE) (simp add: r3_Fin)

lemma round_close: "\<bar>of_int \<lfloor>y + 1 / 2\<rfloor> - (y::real)\<bar> \<le> 1 / 2"
  by linarith

lemma r2_close:
  assumes "isFinite x"
  shows "\<bar>val (r2 x) - val x\<bar> \<le> 1 / 200"
proof -
  obtain a where a: "x = Fin a" using assms by (rule isFiniteE)
  have "\<bar>of_int \<lfloor>a * 100 + 1 / 2\<rfloor> - a * 100\<bar> \<le> 1 / 2"
    by (rule round_close)
  then have "\<bar>of_int \<lfloor>a * 100 + 1 / 2\<rfloor> / 100 - a\<bar> \<le> 1 / 200"
    by (simp add: abs_le_iff field_simps)
  then show ?thesis by (simp add: a r2_Fin)
qed


lemmas flow_defs = packingInputKg_def packingTutKg_def polishInputKalaKg_def polishTutKg_def
  polishDeliveredKg_def pressInputCircleKg_def pressTutKg_def pressDeliveredKalaKg_def

lemmas input_defs = belly7_kunda_def belly7_packTut100_def belly7_def defaultSettings_def
  DEFAULT_INDUCTION_def

lemmas spec_defs = specPackingInput_def specPolishInput_def specPressInput_def

lemma belly7_cover_fields:
  "PressStage.tutPct (press (cover belly7)) = Fin 2"
  "jobWastagePct (press (cover belly7)) = Fin 6"
  by (simp_all add: belly7_def)

lemma belly7_cover_rates:
  "PressStage.ratePerKg (press (cover belly7)) = Fin 14"
  "inductionEnabled (cover belly7) = False"
  "inductionEnabled (box belly7) = False"
  "ScrapReturn.ratePerKg (PressStage.scrapReturn (press (cover belly7))) = Fin 50"
  "ScrapReturn.enabled (PressStage.scrapReturn (press (cover belly7)))"
  "ScrapReturn.enabled (PressStage.scrapReturn (press (box belly7)))"
  "ScrapReturn.enabled (PolishStage.scrapReturn (polish belly7))"
  "ScrapReturn.enabled (PackingStage.scrapReturn (packing belly7))"
  "packingRatePerKg (packing belly7) = Fin 10"
  by (simp_all add: belly7_def inductionEnabled_def DEFAULT_INDUCTION_def)

lemma belly7_circle_rate:
  "resolvePartCircleRatePerKg (box belly7) defaultSettings = Fin 175"
  "resolvePartCircleRatePerKg (cover belly7) defaultSettings = Fin 175"
  by (simp_all add: resolvePartCircleRatePerKg_def fallbackCircleRate_def js_or_def
      belly7_def defaultSettings_def)


lemma p100_parts:
  "box belly7_packTut100 = box belly7" "cover belly7_packTut100 = cover belly7"
  "polish belly7_packTut100 = polish belly7" "kunda belly7_packTut100 = kunda belly7"
  "bagProfile belly7_packTut100 = bagProfile belly7"
  "PackingStage.tutPct (packing belly7_packTut100) = Fin 100"
  "PackingStage.scrapReturn (packing belly7_packTut100) = PackingStage.scrapReturn (packing belly7)"
  "packingRatePerKg (packing belly7_packTut100) = Fin 10"
  by (simp_all add: belly7_packTut100_def) (simp add: belly7_def)

lemma p100_weights:
  "boxAfterPolishG belly7_packTut100 = Fin (3788778/79375)"
  "coverAfterPolishG belly7_packTut100 = Fin (1559327/50800)"
  "totalPackedG belly7_packTut100 = Fin (2354871581/27940000)"
  by (simp_all add: weight_defs p100_parts)
     (simp_all add: belly7_def circleWeightG_Fin pct_def polybagWeightG_def pipeWeightG_def)

lemma p100_batch:
  "totalBoxKgPacked belly7_packTut100 defaultSettings = Fin (106691988480/2354871581)"
  "totalCoverKgPacked belly7_packTut100 defaultSettings = Fin (68610388000/2354871581)"
  by (simp_all add: batch_defs p100_weights) (simp_all add: defaultSettings_def)

lemma p100_flow:
  assumes "0 < q"
  shows "packingInputKg (Fin q) (packing belly7_packTut100) = PInf"
    and "packingTutKg (Fin q) (packing belly7_packTut100) = PInf"
    and "polishInputKalaKg (Fin q) (polish belly7) (packing belly7_packTut100) = PInf"
    and "polishTutKg (Fin q) (polish belly7) (packing belly7_packTut100) = PInf"
    and "polishDeliveredKg (Fin q) (polish belly7) (packing belly7_packTut100) = PInf"
    and "pressInputCircleKg (Fin q) (box belly7) (polish belly7) (packing belly7_packTut100) = PInf"
    and "pressTutKg (Fin q) (box belly7) (polish belly7) (packing belly7_packTut100) = PInf"
    and "pressDeliveredKalaKg (Fin q) (box belly7) (polish belly7) (packing belly7_packTut100) = PInf"
    and "pressInputCircleKg (Fin q) (cover belly7) (polish belly7) (packing belly7_packTut100) = PInf"
    and "pressTutKg (Fin q) (cover belly7) (polish belly7) (packing belly7_packTut100) = PInf"
    and "pressDeliveredKalaKg (Fin q) (cover belly7) (polish belly7) (packing belly7_packTut100) = PInf"
  using assms
  by (simp_all add: flow_defs pct_def p100_parts belly7_box_fields belly7_cover_fields)

lemma p100_costs:
  "circleCost belly7_packTut100 defaultSettings = PInf"
  "boxCost belly7_packTut100 defaultSettings = NaN"
  "finalCost belly7_packTut100 defaultSettings = NaN"
  by (simp_all add: circleCost_def finalCost_def boxCost_def boxCostRes_def coverCostRes_def
      cpfc_components cpfc_totals p100_parts p100_batch p100_flow belly7_circle_rate
      belly7_box_rates belly7_cover_rates)

lemma nf_divide: "\<not> isFinite a \<Longrightarrow> \<not> isFinite (a / b)"
  by (cases a; cases b) simp_all

lemma nf_times: "\<not> isFinite a \<Longrightarrow> \<not> isFinite (a * b)" "\<not> isFinite a \<Longrightarrow> \<not> isFinite (b * a)"
  by (cases a; cases b; simp)+

lemma nf_plus: "\<not> isFinite a \<Longrightarrow> \<not> isFinite (a + b)" "\<not> isFinite a \<Longrightarrow> \<not> isFinite (b + a)"
  by (cases a; cases b; simp)+

lemma nf_minus: "\<not> isFinite a \<Longrightarrow> \<not> isFinite (a - b)"
  by (cases a; cases b) simp_all

lemma nf_round: "\<not> isFinite a \<Longrightarrow> \<not> isFinite (r2 a)" "\<not> isFinite a \<Longrightarrow> \<not> isFinite (r3 a)"
  by (cases a; simp add: r2_def r3_def)+

lemma keep_100: "Fin 1 - pct (Fin 100) = Fin 0"
  by (simp add: pct_def)

lemma zeroish_times: "zeroish (Fin 0 * y)" "zeroish (y * Fin 0)"
  by (cases y; simp add: zeroish_def)+

lemma nf_divide_zeroish: "zeroish d \<Longrightarrow> \<not> isFinite (a / d)"
  by (cases a) (auto simp: zeroish_def split: if_splits)

lemma packing_100:
  assumes "PackingStage.tutPct pk = Fin 100"
  shows "\<not> isFinite (packingInputKg req pk)"
  unfolding packingInputKg_def Let_def assms keep_100
  by (rule nf_divide_zeroish) (simp add: zeroish_def)

lemma polish_not_finite:
  assumes "PackingStage.tutPct pk = Fin 100 \<or> PolishStage.tutPct pol = Fin 100 \<or>
           PolishStage.wastagePct pol = Fin 100"
  shows "\<not> isFinite (polishInputKalaKg req pol pk)"
  using assms
proof (elim disjE)
  assume "PackingStage.tutPct pk = Fin 100"
  then show ?thesis
    unfolding polishInputKalaKg_def Let_def by (intro nf_divide packing_100)
next
  assume a: "PolishStage.tutPct pol = Fin 100"
  show ?thesis
    unfolding polishInputKalaKg_def Let_def a keep_100
    by (intro nf_divide_zeroish zeroish_times)
next
  assume a: "PolishStage.wastagePct pol = Fin 100"
  show ?thesis
    unfolding polishInputKalaKg_def Let_def a keep_100
    by (intro nf_divide_zeroish zeroish_times)
qed

lemma press_not_finite:
  assumes "PackingStage.tutPct pk = Fin 100 \<or> PolishStage.tutPct pol = Fin 100 \<or>
           PolishStage.wastagePct pol = Fin 100 \<or>
           PressStage.tutPct (press part) = Fin 100 \<or> jobWastagePct (press part) = Fin 100"
  shows "\<not> isFinite (pressInputCircleKg req part pol pk)"
proof -
  consider "PackingStage.tutPct pk = Fin 100 \<or> PolishStage.tutPct pol = Fin 100 \<or>
           PolishStage.wastagePct pol = Fin 100"
    | "PressStage.tutPct (press part) = Fin 100" | "jobWastagePct (press part) = Fin 100"
    using assms by blast
  then show ?thesis
  proof cases
    case 1
    then show ?thesis
      unfolding pressInputCircleKg_def Let_def by (intro nf_divide polish_not_finite)
  next
    case 2
    show ?thesis
      unfolding pressInputCircleKg_def Let_def 2 keep_100
      by (intro nf_divide_zeroish zeroish_times)
  next
    case 3
    show ?thesis
      unfolding pressInputCircleKg_def Let_def 3 keep_100
      by (intro nf_divide_zeroish zeroish_times)
  qed
qed

lemma part_not_finite:
  assumes "\<not> isFinite (pressInputCircleKg req part pol pk)"
  shows "\<not> isFinite (circleKgIn (flow (computePartForwardCost req part pol pk rate)))"
    and "\<not> isFinite (Components.circleCost (components (computePartForwardCost req part pol pk rate)))"
    and "\<not> isFinite (partCostExcludingFinalPackingCharge (computePartForwardCost req part pol pk rate))"
proof -
  show "\<not> isFinite (circleKgIn (flow (computePartForwardCost req part pol pk rate)))"
    using assms by (simp add: cpfc_flow)
  show c: "\<not> isFinite (Components.circleCost (components (computePartForwardCost req part pol pk rate)))"
    unfolding cpfc_components by (intro nf_times assms)
  show "\<not> isFinite (partCostExcludingFinalPackingCharge (computePartForwardCost req part pol pk rate))"
    unfolding cpfc_totals(2) by (intro nf_minus nf_plus c)
qed

text \<open>
  C1, as the code has it. \<open>calculate\<close> has no domain check and no failure path. Whenever
  a stage percentage is 100 (packing tut, polish tut or wastage, or press tut or job wastage
  of either part), so that the combined loss fraction of its stage is 1, \<open>calculate\<close> still
  returns a result, and in that result the total circle mass, the circle cost, the final
  cost, the rate per kg and the rate per piece are each an infinity or NaN. This holds for
  every item and all settings, whatever the other fields are.
\<close>

theorem calculate_not_finite_when_loss_is_one:
  assumes "lossIsOne item"
  shows "\<not> isFinite (Debug.circleKgInTotal (debug (calculate item s)))
       \<and> \<not> isFinite (Debug.circleCost (debug (calculate item s)))
       \<and> \<not> isFinite (Debug.finalCost (debug (calculate item s)))
       \<and> \<not> isFinite (CalcResult.perKgRate (calculate item s))
       \<and> \<not> isFinite (CalcResult.perPcRate (calculate item s))"
proof -
  have "\<not> isFinite (pressInputCircleKg (totalBoxKgPacked item s) (box item) (polish item) (packing item))
      \<or> \<not> isFinite (pressInputCircleKg (totalCoverKgPacked item s) (cover item) (polish item) (packing item))"
    using assms unfolding lossIsOne_def by (elim disjE) (simp_all add: press_not_finite)
  then have parts:
    "(\<not> isFinite (circleKgIn (flow (boxCostRes item s))) \<and>
      \<not> isFinite (Components.circleCost (components (boxCostRes item s))) \<and>
      \<not> isFinite (boxCost item s))
     \<or> (\<not> isFinite (circleKgIn (flow (coverCostRes item s))) \<and>
      \<not> isFinite (Components.circleCost (components (coverCostRes item s))) \<and>
      \<not> isFinite (coverCost item s))"
    unfolding boxCostRes_def coverCostRes_def boxCost_def coverCost_def
    by (auto dest: part_not_finite)
  have 1: "\<not> isFinite (circleKgIn (flow (boxCostRes item s)) + circleKgIn (flow (coverCostRes item s)))"
    using parts nf_plus by blast
  have 2: "\<not> isFinite (circleCost item s)"
    unfolding circleCost_def using parts nf_plus by blast
  have bc: "\<not> isFinite (boxCost item s + coverCost item s)"
    using parts nf_plus by blast
  have 3: "\<not> isFinite (finalCost item s)"
    unfolding finalCost_def
    by (rule nf_plus(1), rule nf_plus(1), rule nf_plus(1), rule bc)
  have 4: "\<not> isFinite (perKgRate item s)"
    unfolding perKgRate_def by (intro nf_divide 3)
  have 5: "\<not> isFinite (perPcRate item s)"
    unfolding perPcRate_def by (intro nf_times 4)
  show ?thesis
    by (simp add: calculate_def nf_round 1 2 3 4 5)
qed

theorem calculate_not_finite_when_loss_is_one_witness:
  "lossIsOne belly7_packTut100
   \<and> \<not> isFinite (Debug.circleKgInTotal (debug (calculate belly7_packTut100 defaultSettings)))
   \<and> \<not> isFinite (Debug.circleCost (debug (calculate belly7_packTut100 defaultSettings)))
   \<and> \<not> isFinite (Debug.finalCost (debug (calculate belly7_packTut100 defaultSettings)))
   \<and> \<not> isFinite (CalcResult.perKgRate (calculate belly7_packTut100 defaultSettings))
   \<and> \<not> isFinite (CalcResult.perPcRate (calculate belly7_packTut100 defaultSettings))"
proof -
  have h: "lossIsOne belly7_packTut100"
    by (simp add: lossIsOne_def p100_parts)
  from calculate_not_finite_when_loss_is_one [OF h] h show ?thesis by blast
qed

text \<open>
  C1, as the specification states it, fails: with a packing tut of 100 percent (combined loss
  fraction 1) on the first seed item, \<open>calculate\<close> returns a result whose circle cost is
  \<open>Infinity\<close> and whose final cost and rate per kg are NaN.
\<close>

theorem calculate_packTut100_returns_infinity:
  "PackingStage.tutPct (packing belly7_packTut100) = Fin 100
   \<and> Debug.circleCost (debug (calculate belly7_packTut100 defaultSettings)) = PInf
   \<and> Debug.finalCost (debug (calculate belly7_packTut100 defaultSettings)) = NaN
   \<and> CalcResult.perKgRate (calculate belly7_packTut100 defaultSettings) = NaN"
  by (simp add: calculate_def p100_costs p100_parts r2_def perKgRate_def)

section \<open>Batch size\<close>






section \<open>Cost breakdown\<close>

lemma r2_bounds:
  assumes "isFinite x"
  shows "val (r2 x) - val x \<le> 1 / 200" and "val x - val (r2 x) \<le> 1 / 200"
  using r2_close [OF assms] by linarith+

text \<open>
  C5, as the code has it. On a valid input whose nine emitted amounts are finite and at most
  \<open>10 ^ 9\<close> in absolute value, the emitted final cost equals the sum of the emitted circle,
  press, induction, polish, packing, kunda and plastic costs minus the emitted scrap credit to
  within 0.045: each of the nine amounts is rounded to two decimals on its own. The final cost
  is \<open>boxCost + coverCost + kundaCost + plasticCost + packingCost\<close>, the rate per kg is the
  final cost over \<open>bagStandardKg\<close>, and the rate per piece is the rate per kg times
  \<open>totalPackedG / 1000\<close>, each rounded to two decimals where it is emitted.

  The bound is proved on exact reals, where the nine roundings account for 0.045. The limit on
  the magnitude keeps the rounding of doubles, which the embedding does not see, below
  \<open>10 ^ - 4\<close>; the emitted amounts are multiples of 0.01, so that a gap above 0.04 needs a
  deviation of 0.005.
\<close>

theorem finalCost_breakdown:
  assumes v: "validInput item s" and m: "moderate (debug (calculate item s))"
  shows "\<bar>val (Debug.finalCost (debug (calculate item s))) - debugSum (debug (calculate item s))\<bar>
           \<le> 0.045
       \<and> Debug.finalCost (debug (calculate item s)) =
           r2 (boxCost item s + coverCost item s + kundaCost item s + plasticCost item s +
               packingCost item s)
       \<and> CalcResult.perKgRate (calculate item s) =
           r2 ((boxCost item s + coverCost item s + kundaCost item s + plasticCost item s +
                packingCost item s) / bagStandardKg s)
       \<and> CalcResult.perPcRate (calculate item s) =
           r2 ((boxCost item s + coverCost item s + kundaCost item s + plasticCost item s +
                packingCost item s) / bagStandardKg s * (totalPackedG item / Fin 1000))"
proof -
  note t = valid_totals [OF v] and k = valid_simple_costs [OF v]
  have d: "debugSum (debug (calculate item s)) =
      val (r2 (circleCost item s)) + val (r2 (pressCost item s)) +
      val (r2 (inductionCost item s)) + val (r2 (polishCost item s)) +
      val (r2 (packingCost item s)) + val (r2 (kundaCost item s)) +
      val (r2 (plasticCost item s)) - val (r2 (scrapCredit item s))"
    by (simp add: debugSum_def calculate_def)
  have f: "Debug.finalCost (debug (calculate item s)) = r2 (finalCost item s)"
    by (simp add: calculate_def)
  note c = r2_bounds [OF t(6)] r2_bounds [OF t(1)] r2_bounds [OF t(2)] r2_bounds [OF t(3)]
    r2_bounds [OF t(4)] r2_bounds [OF k(3)] r2_bounds [OF k(1)] r2_bounds [OF k(2)]
    r2_bounds [OF t(5)]
  have up: "val (r2 (finalCost item s)) - debugSum (debug (calculate item s)) \<le> 9 / 200"
    unfolding d using c t(7) by linarith
  have lo: "- (9 / 200) \<le> val (r2 (finalCost item s)) - debugSum (debug (calculate item s))"
    unfolding d using c t(7) by linarith
  have "\<bar>val (r2 (finalCost item s)) - debugSum (debug (calculate item s))\<bar> \<le> 9 / 200"
    using up lo by linarith
  then have 1: "\<bar>val (Debug.finalCost (debug (calculate item s))) -
      debugSum (debug (calculate item s))\<bar> \<le> 0.045"
    by (simp add: f)
  have 2: "Debug.finalCost (debug (calculate item s)) =
           r2 (boxCost item s + coverCost item s + kundaCost item s + plasticCost item s +
               packingCost item s)"
    "CalcResult.perKgRate (calculate item s) =
           r2 ((boxCost item s + coverCost item s + kundaCost item s + plasticCost item s +
                packingCost item s) / bagStandardKg s)"
    "CalcResult.perPcRate (calculate item s) =
           r2 ((boxCost item s + coverCost item s + kundaCost item s + plasticCost item s +
                packingCost item s) / bagStandardKg s * (totalPackedG item / Fin 1000))"
    by (simp_all add: calculate_def finalCost_def perKgRate_def perPcRate_def)
  from 1 2 show ?thesis by blast
qed

lemma k_parts:
  "box belly7_kunda = box belly7" "cover belly7_kunda = cover belly7"
  "polish belly7_kunda = polish belly7" "packing belly7_kunda = packing belly7"
  by (simp_all add: belly7_kunda_def)

lemma k_weights:
  "boxAfterPolishG belly7_kunda = Fin (3788778/79375)"
  "coverAfterPolishG belly7_kunda = Fin (1559327/50800)"
  "kundaG belly7_kunda = Fin 5"
  "polybagG belly7_kunda = Fin (48/11)"
  "pipePerPcG belly7_kunda = Fin (525/352)"
  "totalPackedG belly7_kunda = Fin (2494571581/27940000)"
  by (simp_all add: weight_defs input_defs circleWeightG_Fin pct_def polybagWeightG_def pipeWeightG_def)

lemma k_batch:
  "pcs belly7_kunda defaultSettings = Fin (2235200000000/2494571581)"
  "totalBoxKgPacked belly7_kunda defaultSettings = Fin (106691988480/2494571581)"
  "totalCoverKgPacked belly7_kunda defaultSettings = Fin (68610388000/2494571581)"
  by (simp_all add: batch_defs k_weights) (simp_all add: defaultSettings_def)

lemma nz2: "(2::real) \<noteq> 100" "(3::real) \<noteq> 100" "(8::real) \<noteq> 100" "(6::real) \<noteq> 100" by simp_all

lemmas k_box_flow = flow_values [OF belly7_box_fields nz2(1) nz2(1) nz2(1) nz2(2) nz2(3)]
lemmas k_cover_flow = flow_values [OF belly7_box_fields(1-3) belly7_cover_fields nz2(1) nz2(1) nz2(1) nz2(1) nz2(4)]

lemma k_circle: "circleCost belly7_kunda defaultSettings = Fin (63581222113750000000000/4396262323163688019)"
  by (simp add: circleCost_def boxCostRes_def coverCostRes_def cpfc_components k_parts k_batch
     belly7_circle_rate k_box_flow k_cover_flow spec_defs)


lemma k_press: "pressCost belly7_kunda defaultSettings = Fin (1127691400000000/855638052283)"
  by (simp add: pressCost_def boxCostRes_def coverCostRes_def cpfc_components k_parts k_batch
     belly7_box_rates belly7_cover_rates k_box_flow k_cover_flow spec_defs)

lemma k_induction: "inductionCost belly7_kunda defaultSettings = Fin 0"
  by (simp add: inductionCost_def boxCostRes_def coverCostRes_def cpfc_components k_parts
     belly7_cover_rates)

lemma k_polish: "polishCost belly7_kunda defaultSettings = Fin (12879358272000/2494571581)"
  by (simp add: polishCost_def boxCostRes_def coverCostRes_def cpfc_components k_parts k_batch
     belly7_box_rates k_box_flow k_cover_flow spec_defs)

lemma k_scrap: "scrapCredit belly7_kunda defaultSettings = Fin (7831199175202551368000/30773836262145816133)"
  by (simp add: scrapCredit_def boxCostRes_def coverCostRes_def cpfc_totals cpfc_components
     k_parts k_batch belly7_box_rates belly7_cover_rates k_box_flow k_cover_flow spec_defs)

lemma k_simple:
  "kundaCost belly7_kunda defaultSettings = Fin (2291080000000/2494571581)"
  "plasticCost belly7_kunda defaultSettings = Fin (1766792250000/2494571581)"
  "packingCost belly7_kunda defaultSettings = Fin 800"
  by (simp_all add: kundaCost_def kundaKg_def plasticCost_def polybagKg_def pipeKg_def
     packingCost_def k_batch k_weights k_parts belly7_cover_rates)
    (simp_all add: input_defs)

lemma k_valid: "validInput belly7_kunda defaultSettings"
  by (simp add: validInput_def validPart_def validPress_def validPolish_def validPacking_def
      validKunda_def validBagProfile_def validSettings_def input_defs)

lemma k_final: "finalCost belly7_kunda defaultSettings = Fin (711358034105560554284400/30773836262145816133)"
proof -
  have v: "val (finalCost belly7_kunda defaultSettings) =
      711358034105560554284400/30773836262145816133"
    unfolding valid_totals(7) [OF k_valid] k_circle k_press k_induction k_polish k_scrap k_simple
    by simp
  have "finalCost belly7_kunda defaultSettings = Fin (val (finalCost belly7_kunda defaultSettings))"
    by (rule fin_val [OF valid_totals(6) [OF k_valid]])
  then show ?thesis by (simp only: v)
qed

lemma k_debug:
  "Debug.circleCost (debug (calculate belly7_kunda defaultSettings)) = Fin 14462.56"
  "Debug.pressCost (debug (calculate belly7_kunda defaultSettings)) = Fin 1317.95"
  "Debug.inductionCost (debug (calculate belly7_kunda defaultSettings)) = Fin 0"
  "Debug.polishCost (debug (calculate belly7_kunda defaultSettings)) = Fin 5162.95"
  "Debug.packingCost (debug (calculate belly7_kunda defaultSettings)) = Fin 800"
  "Debug.kundaCost (debug (calculate belly7_kunda defaultSettings)) = Fin 918.43"
  "Debug.plasticCost (debug (calculate belly7_kunda defaultSettings)) = Fin 708.25"
  "Debug.scrapCredit (debug (calculate belly7_kunda defaultSettings)) = Fin 254.48"
  "Debug.finalCost (debug (calculate belly7_kunda defaultSettings)) = Fin 23115.68"
  by (simp_all add: calculate_def k_circle k_press k_induction k_polish k_scrap k_simple k_final
      r2_Fin)

lemma k_moderate: "moderate (debug (calculate belly7_kunda defaultSettings))"
  by (simp add: moderate_def withinBillion_def k_debug)

theorem finalCost_breakdown_witness:
  "validInput belly7_kunda defaultSettings
   \<and> moderate (debug (calculate belly7_kunda defaultSettings))
   \<and> \<bar>val (Debug.finalCost (debug (calculate belly7_kunda defaultSettings))) -
        debugSum (debug (calculate belly7_kunda defaultSettings))\<bar> \<le> 0.045"
  using finalCost_breakdown [OF k_valid k_moderate] k_valid k_moderate
  by blast

text \<open>
  C5, as the specification states it, fails: on the first seed item with a 5 g kunda the
  emitted final cost is 23115.68 and the emitted components sum to 23115.66, a gap of 0.02.
\<close>

theorem finalCost_gap_exceeds_tolerance:
  "validInput belly7_kunda defaultSettings
   \<and> Debug.finalCost (debug (calculate belly7_kunda defaultSettings)) = Fin 23115.68
   \<and> debugSum (debug (calculate belly7_kunda defaultSettings)) = 23115.66
   \<and> \<bar>val (Debug.finalCost (debug (calculate belly7_kunda defaultSettings))) -
        debugSum (debug (calculate belly7_kunda defaultSettings))\<bar> > 0.01"
  by (simp add: k_valid debugSum_def k_debug)

end
